theory Spec2Isabelle
  imports Complex_Main
begin

section \<open>Arrays and the numpy / jax.numpy operations the notebooks use\<close>

text \<open>
  The notebooks compute with one-dimensional arrays (lists of reals) and two-dimensional
  arrays (lists of rows). Floating-point numbers are read as real numbers. An operation
  that raises in numpy is the value \<open>Inl\<close> of an error; a result that is \<open>nan\<close> or
  infinite in jax.numpy (the mean of an empty array, the logarithm of a non-positive
  number, a division by zero) is \<open>Inl NonFinite\<close>.
\<close>

datatype error = ShapeError | IndexError | NonFinite | ZeroDivisionError | ValueError

type_synonym vec = "real list"
type_synonym mat = "real list list"

text \<open>\<^verbatim>\<open>jnp.dot(a, b)\<close> on two one-dimensional arrays.\<close>

definition dot :: "vec \<Rightarrow> vec \<Rightarrow> error + real" where
  "dot a b = (if length a = length b then Inr (sum_list (map2 (*) a b)) else Inl ShapeError)"

text \<open>\<^verbatim>\<open>X @ v\<close>, \<^verbatim>\<open>jnp.matmul(X, v)\<close>: a matrix times a one-dimensional array.\<close>

definition matvec :: "mat \<Rightarrow> vec \<Rightarrow> error + vec" where
  "matvec X v =
     (if list_all (\<lambda>row. length row = length v) X
      then Inr (map (\<lambda>row. sum_list (map2 (*) row v)) X)
      else Inl ShapeError)"

text \<open>
  \<^verbatim>\<open>a - b\<close> on one-dimensional arrays, with numpy's broadcasting of an operand of
  length one.
\<close>

definition vsub :: "vec \<Rightarrow> vec \<Rightarrow> error + vec" where
  "vsub a b =
     (if length a = length b then Inr (map2 (-) a b)
      else if length b = 1 then Inr (map (\<lambda>x. x - hd b) a)
      else if length a = 1 then Inr (map (\<lambda>x. hd a - x) b)
      else Inl ShapeError)"

text \<open>\<^verbatim>\<open>jnp.mean(a)\<close>: \<open>nan\<close> on an empty array.\<close>

definition jnp_mean :: "vec \<Rightarrow> error + real" where
  "jnp_mean a = (if a = [] then Inl NonFinite else Inr (sum_list a / real (length a)))"

text \<open>\<^verbatim>\<open>jnp.log(x)\<close> and \<^verbatim>\<open>np.log(x)\<close>: \<open>nan\<close> or \<open>-inf\<close> on a non-positive number.\<close>

definition jnp_log :: "real \<Rightarrow> error + real" where
  "jnp_log x = (if 0 < x then Inr (ln x) else Inl NonFinite)"

text \<open>\<^verbatim>\<open>a / n\<close> of a jax scalar by a Python integer: infinite or \<open>nan\<close> when \<open>n = 0\<close>.\<close>

definition div_n :: "real \<Rightarrow> nat \<Rightarrow> error + real" where
  "div_n a n = (if n = 0 then Inl NonFinite else Inr (a / real n))"

section \<open>Linear regression: the mean-squared-error losses\<close>

text \<open>
  \<^verbatim>\<open>
  def ols_loss(params):
      loss = jnp.mean((y - X @ params) ** 2)
      return loss
  \<close>
  \<open>X\<close> and \<open>y\<close> are the globals of the notebook, here the first two arguments.
\<close>

definition ols_loss :: "mat \<Rightarrow> vec \<Rightarrow> vec \<Rightarrow> error + real" where
  "ols_loss X y params =
     (case matvec X params of
        Inl e \<Rightarrow> Inl e
      | Inr xb \<Rightarrow>
          (case vsub y xb of
             Inl e \<Rightarrow> Inl e
           | Inr r \<Rightarrow> jnp_mean (map (\<lambda>v. v ^ 2) r)))"

text \<open>
  The benchmark's \<^verbatim>\<open>objective\<close>, one definition per task:
  \<^verbatim>\<open>
  if task == 'Linear':    loss = jnp.mean((y - X @ params) ** 2)
  elif task == 'Non-Neg': loss = jnp.mean((y - X @ params) ** 2)
  elif task == 'Logistic':
      xbeta = jnp.clip(X @ params, -30, 30)
      return jnp.mean(jnp.log(1 + jnp.exp(xbeta)) - y * xbeta)
  \<close>
\<close>

datatype task = Linear | NonNeg | Logistic

definition jnp_clip :: "real \<Rightarrow> real \<Rightarrow> real \<Rightarrow> real" where
  "jnp_clip x lo hi = min (max x lo) hi"

definition vmul :: "vec \<Rightarrow> vec \<Rightarrow> error + vec" where
  "vmul a b =
     (if length a = length b then Inr (map2 (*) a b)
      else if length b = 1 then Inr (map (\<lambda>x. x * hd b) a)
      else if length a = 1 then Inr (map (\<lambda>x. hd a * x) b)
      else Inl ShapeError)"

fun objective :: "task \<Rightarrow> mat \<Rightarrow> vec \<Rightarrow> vec \<Rightarrow> error + real" where
  "objective Linear X y params =
     (case matvec X params of
        Inl e \<Rightarrow> Inl e
      | Inr xb \<Rightarrow>
          (case vsub y xb of
             Inl e \<Rightarrow> Inl e
           | Inr r \<Rightarrow> jnp_mean (map (\<lambda>v. v ^ 2) r)))"
| "objective NonNeg X y params =
     (case matvec X params of
        Inl e \<Rightarrow> Inl e
      | Inr xb \<Rightarrow>
          (case vsub y xb of
             Inl e \<Rightarrow> Inl e
           | Inr r \<Rightarrow> jnp_mean (map (\<lambda>v. v ^ 2) r)))"
| "objective Logistic X y params =
     (case matvec X params of
        Inl e \<Rightarrow> Inl e
      | Inr xb0 \<Rightarrow>
          (let xbeta = map (\<lambda>v. jnp_clip v (-30) 30) xb0 in
           case vmul y xbeta of
             Inl e \<Rightarrow> Inl e
           | Inr yx \<Rightarrow>
               (case vsub (map (\<lambda>v. ln (1 + exp v)) xbeta) yx of
                  Inl e \<Rightarrow> Inl e
                | Inr r \<Rightarrow> jnp_mean r)))"

section \<open>Multinomial logistic regression: the softmax negative log-likelihood\<close>

text \<open>Sequencing of fallible steps: the first error is the result.\<close>

definition bindE :: "error + 'a \<Rightarrow> ('a \<Rightarrow> error + 'b) \<Rightarrow> error + 'b" where
  "bindE r f = (case r of Inl e \<Rightarrow> Inl e | Inr a \<Rightarrow> f a)"

text \<open>An elementwise fallible operation over an array: the first error is the result.\<close>

fun mapE :: "('a \<Rightarrow> error + 'b) \<Rightarrow> 'a list \<Rightarrow> error + 'b list" where
  "mapE f [] = Inr []"
| "mapE f (x # xs) =
     (case f x of
        Inl e \<Rightarrow> Inl e
      | Inr v \<Rightarrow> (case mapE f xs of Inl e \<Rightarrow> Inl e | Inr vs \<Rightarrow> Inr (v # vs)))"

text \<open>
  \<^verbatim>\<open>params.reshape((p, m))\<close>: row-major, entry \<open>(j, k)\<close> is \<open>params[j * m + k]\<close>; raises
  when \<open>params\<close> does not have \<open>p * m\<close> entries.
\<close>

definition reshape :: "nat \<Rightarrow> nat \<Rightarrow> vec \<Rightarrow> error + mat" where
  "reshape p m v =
     (if length v = p * m then Inr (map (\<lambda>j. take m (drop (j * m) v)) [0..<p])
      else Inl ShapeError)"

text \<open>
  \<^verbatim>\<open>jnp.dot(X, B)\<close> on two-dimensional arrays, \<open>B\<close> with \<open>m\<close> columns (a list of rows does
  not record the number of columns of a matrix with no row, so it is an argument).
\<close>

definition matmul :: "nat \<Rightarrow> mat \<Rightarrow> mat \<Rightarrow> error + mat" where
  "matmul m X B =
     (if list_all (\<lambda>row. length row = length B) X \<and> list_all (\<lambda>r. length r = m) B
      then Inr (map (\<lambda>row. map (\<lambda>k. sum_list (map2 (\<lambda>x b. x * b ! k) row B)) [0..<m]) X)
      else Inl ShapeError)"

text \<open>
  \<^verbatim>\<open>A * B\<close> elementwise on two-dimensional arrays of one shape. Broadcasting of an axis of
  length one is not modelled for two-dimensional arrays: it is \<open>ShapeError\<close> here.
\<close>

definition mmul_elem :: "mat \<Rightarrow> mat \<Rightarrow> error + mat" where
  "mmul_elem A B =
     (if length A = length B \<and> list_all2 (\<lambda>a b. length a = length b) A B
      then Inr (map2 (map2 (*)) A B)
      else Inl ShapeError)"

text \<open>
  \<^verbatim>\<open>
  def multinomial_regression_loss(params):
      beta = params.reshape((p, m))
      logits = jnp.dot(X, beta)
      softmax_probs = jnp.exp(logits) / jnp.sum(jnp.exp(logits), axis=1, keepdims=True)
      loss = -jnp.mean(jnp.sum(y * jnp.log(softmax_probs), axis=1))
      return loss
  \<close>
  \<open>p\<close>, \<open>m\<close>, \<open>X\<close> and \<open>y\<close> are the globals of the notebook, here the first four arguments.
  The row sums of \<open>exp\<close> are positive wherever a quotient is formed, so the division is
  the division of the reals.
\<close>

definition multinomial_regression_loss :: "nat \<Rightarrow> nat \<Rightarrow> mat \<Rightarrow> mat \<Rightarrow> vec \<Rightarrow> error + real" where
  "multinomial_regression_loss p m X y params =
     bindE (reshape p m params) (\<lambda>beta.
     bindE (matmul m X beta) (\<lambda>logits.
     let softmax_probs = map (\<lambda>row. map (\<lambda>v. exp v / sum_list (map exp row)) row) logits in
     bindE (mapE (mapE jnp_log) softmax_probs) (\<lambda>logp.
     bindE (mmul_elem y logp) (\<lambda>yl.
     bindE (jnp_mean (map sum_list yl)) (\<lambda>mn. Inr (- mn))))))"

section \<open>Survival models: the partial-likelihood objectives\<close>

text \<open>
  \<^verbatim>\<open>for i in ...: ...\<close> over a state: the body maps the loop variable and the state to
  the next state, and the first error ends the loop.
\<close>

fun for_loop :: "('a \<Rightarrow> 's \<Rightarrow> error + 's) \<Rightarrow> 'a list \<Rightarrow> 's \<Rightarrow> error + 's" where
  "for_loop body [] s = Inr s"
| "for_loop body (i # is) s = bindE (body i s) (for_loop body is)"

text \<open>\<^verbatim>\<open>jnp.zeros_like(a)\<close>.\<close>

definition zeros_like :: "vec \<Rightarrow> vec" where
  "zeros_like a = replicate (length a) 0"

text \<open>
  The at-risk indicator of the competing-risk notebook, for observation \<open>i\<close>:
  \<^verbatim>\<open>
  riskset = ((y[:,0]>=y[i,0])|((delta[:,1]==0)&(delta[:,0]==1)&(y[:,0]<=y[i,0])&(y[:,1]>=y[i,0])))*1
  \<close>
  \<open>y\<close> holds the observed time and the censoring time of each observation, \<open>delta\<close> the
  censoring indicator and the failure case. Indexing a missing row or column raises;
  \<open>y\<close> and \<open>delta\<close> with different numbers of rows do not combine elementwise
  (broadcasting of an array with one row is not modelled: \<open>ShapeError\<close>).
\<close>

definition riskset :: "mat \<Rightarrow> int list list \<Rightarrow> nat \<Rightarrow> error + vec" where
  "riskset y delta i =
     (if list_all (\<lambda>r. 1 < length r) y \<and> list_all (\<lambda>r. 1 < length r) delta \<and> i < length y
      then (if length delta = length y
            then Inr (map2 (\<lambda>yr dr. of_bool (yr ! 0 \<ge> y ! i ! 0
                         \<or> (dr ! 1 = 0 \<and> dr ! 0 = 1 \<and> yr ! 0 \<le> y ! i ! 0 \<and> yr ! 1 \<ge> y ! i ! 0)))
                       y delta)
            else Inl ShapeError)
      else Inl IndexError)"

text \<open>\<^verbatim>\<open>delta[:, k]\<close>, read as reals where it enters a dot product.\<close>

definition col :: "nat \<Rightarrow> int list list \<Rightarrow> error + vec" where
  "col k delta =
     (if list_all (\<lambda>r. k < length r) delta then Inr (map (\<lambda>r. of_int (r ! k)) delta)
      else Inl IndexError)"

text \<open>
  \<^verbatim>\<open>
  def competing_risk_objective(params):
      Xbeta = jnp.matmul(x, params)
      logsum = jnp.zeros_like(Xbeta)
      for i in range(0,n):
          riskset = ...
          logsum = logsum.at[i].set(jnp.log(jnp.dot(riskset, jnp.exp(Xbeta))))
      return jnp.dot(delta[:,0]*delta[:,1],logsum)/n-jnp.dot(delta[:,0]*delta[:,1], Xbeta)/n
  \<close>
  \<open>n\<close>, \<open>x\<close>, \<open>y\<close> and \<open>delta\<close> are the globals of the notebook, here the first four
  arguments. \<^verbatim>\<open>logsum.at[i].set(v)\<close> with \<open>i\<close> out of range leaves the array as it is, as
  the list update does.
\<close>

definition competing_risk_objective ::
  "nat \<Rightarrow> mat \<Rightarrow> mat \<Rightarrow> int list list \<Rightarrow> vec \<Rightarrow> error + real" where
  "competing_risk_objective n x y delta params =
     bindE (matvec x params) (\<lambda>Xbeta.
     bindE (for_loop (\<lambda>i logsum.
              bindE (riskset y delta i) (\<lambda>rs.
              bindE (dot rs (map exp Xbeta)) (\<lambda>d.
              bindE (jnp_log d) (\<lambda>l. Inr (logsum[i := l])))))
            [0..<n] (zeros_like Xbeta)) (\<lambda>logsum.
     bindE (col 0 delta) (\<lambda>d0.
     bindE (col 1 delta) (\<lambda>d1.
     bindE (vmul d0 d1) (\<lambda>w.
     bindE (dot w logsum) (\<lambda>a.
     bindE (div_n a n) (\<lambda>a'.
     bindE (vmul d0 d1) (\<lambda>w'.
     bindE (dot w' Xbeta) (\<lambda>b.
     bindE (div_n b n) (\<lambda>b'. Inr (a' - b')))))))))))"

text \<open>
  The at-risk indicator of the multivariate failure time notebook, for failure type \<open>k\<close>
  and observation \<open>i\<close>: \<^verbatim>\<open>y[:,k] >= y[:,k][i]\<close>.
\<close>

definition at_risk :: "mat \<Rightarrow> nat \<Rightarrow> nat \<Rightarrow> error + vec" where
  "at_risk y k i =
     (if list_all (\<lambda>r. k < length r) y \<and> i < length y
      then Inr (map (\<lambda>r. of_bool (r ! k \<ge> y ! i ! k)) y)
      else Inl IndexError)"

text \<open>
  \<^verbatim>\<open>
  def multivariate_failure_objective(params):
      Xbeta = jnp.matmul(x, params)
      logsum1 = jnp.zeros_like(Xbeta)
      logsum2 = jnp.zeros_like(Xbeta)
      for i in range(0,n):
          logsum1 = logsum1.at[i].set(jnp.log(jnp.dot(y[:,0] >= y[:,0][i], jnp.exp(Xbeta))))
          logsum2 = logsum2.at[i].set(jnp.log(jnp.dot(y[:,1] >= y[:,1][i], jnp.exp(Xbeta))))
      return (jnp.dot(delta[:,0],logsum1)+jnp.dot(delta[:,1],logsum2)
              -jnp.dot(delta[:,0], Xbeta)-jnp.dot(delta[:,1], Xbeta))/n
  \<close>
\<close>

definition multivariate_failure_objective ::
  "nat \<Rightarrow> mat \<Rightarrow> mat \<Rightarrow> int list list \<Rightarrow> vec \<Rightarrow> error + real" where
  "multivariate_failure_objective n x y delta params =
     bindE (matvec x params) (\<lambda>Xbeta.
     bindE (for_loop (\<lambda>i (logsum1, logsum2).
              bindE (at_risk y 0 i) (\<lambda>r1.
              bindE (dot r1 (map exp Xbeta)) (\<lambda>d1.
              bindE (jnp_log d1) (\<lambda>l1.
              bindE (at_risk y 1 i) (\<lambda>r2.
              bindE (dot r2 (map exp Xbeta)) (\<lambda>d2.
              bindE (jnp_log d2) (\<lambda>l2. Inr (logsum1[i := l1], logsum2[i := l2]))))))))
            [0..<n] (zeros_like Xbeta, zeros_like Xbeta)) (\<lambda>(logsum1, logsum2).
     bindE (col 0 delta) (\<lambda>c0.
     bindE (dot c0 logsum1) (\<lambda>a1.
     bindE (col 1 delta) (\<lambda>c1.
     bindE (dot c1 logsum2) (\<lambda>a2.
     bindE (dot c0 Xbeta) (\<lambda>b1.
     bindE (dot c1 Xbeta) (\<lambda>b2.
     div_n (a1 + a2 - b1 - b2) n))))))))"

section \<open>Survival models: the data simulators\<close>

text \<open>
  \<^verbatim>\<open>np.power(a, b)\<close> on floats, read over the reals: a positive base to any exponent; zero
  to a positive exponent is 0, to exponent 0 is 1, to a negative exponent is infinite; a
  negative base to an exponent that is not an integer is \<open>nan\<close>.
\<close>

definition np_power :: "real \<Rightarrow> real \<Rightarrow> error + real" where
  "np_power a b =
     (if 0 < a then Inr (a powr b)
      else if a = 0 then (if 0 < b then Inr 0 else if b = 0 then Inr 1 else Inl NonFinite)
      else if frac b = 0 then Inr (power_int a \<lfloor>b\<rfloor>)
      else Inl NonFinite)"

text \<open>\<^verbatim>\<open>a / b\<close> of two Python numbers: raises on \<open>b = 0\<close>.\<close>

definition py_div :: "real \<Rightarrow> real \<Rightarrow> error + real" where
  "py_div a b = (if b = 0 then Inl ZeroDivisionError else Inr (a / b))"

text \<open>\<^verbatim>\<open>a / b\<close> with a numpy operand: infinite or \<open>nan\<close> on \<open>b = 0\<close>.\<close>

definition np_div :: "real \<Rightarrow> real \<Rightarrow> error + real" where
  "np_div a b = (if b = 0 then Inl NonFinite else Inr (a / b))"

text \<open>
  The simulators draw from \<^verbatim>\<open>np.random\<close>. One realization of the draws of a call is an
  argument of the model, a field for each call of the generator, in the order of the
  source: \<^verbatim>\<open>multivariate_normal(mean, cov, size=(n,))\<close>, \<^verbatim>\<open>binomial(1, prob)\<close>,
  \<^verbatim>\<open>uniform(0, 1, n)\<close>, \<^verbatim>\<open>exponential(scale, n)\<close> and \<^verbatim>\<open>uniform(0, c, n)\<close>. The
  parameters \<open>rho\<close> and \<open>c\<close> of \<open>make_data\<close> only shape the distributions of these draws.
\<close>

record draws =
  x_draw :: mat
  case_draw :: "int list"
  u_draw :: vec
  exp_draw :: vec
  ctime_draw :: vec

text \<open>
  The failure time of one observation, with linear predictor \<open>xb\<close>, failure case \<open>cs\<close> and
  draws \<open>u\<close> and \<open>e\<close>:
  \<^verbatim>\<open>
  temp = -(1-mix)/mix+np.power((1-u+u*np.power((1-mix),np.exp(Xbeta))),np.exp(-Xbeta))/mix
  time = case*(-np.log(temp))  + (1-case)*np.random.exponential(np.exp(-Xbeta),n)
  \<close>
\<close>

definition failure_time :: "real \<Rightarrow> real \<Rightarrow> int \<Rightarrow> real \<Rightarrow> real \<Rightarrow> error + real" where
  "failure_time mix xb cs u e =
     bindE (py_div (- (1 - mix)) mix) (\<lambda>t0.
     bindE (np_power (1 - mix) (exp xb)) (\<lambda>q.
     bindE (np_power (1 - u + u * q) (exp (- xb))) (\<lambda>b.
     bindE (np_div b mix) (\<lambda>t1.
     bindE (jnp_log (t0 + t1)) (\<lambda>l.
     Inr (of_int cs * (- l) + (1 - of_int cs) * e))))))"

text \<open>
  \<^verbatim>\<open>
  def make_data(n,beta,rho=0.5,mix=0.5,c=10):
      p = len(beta)
      Sigma = np.power(rho, np.abs(np.linspace(1, p, p) - np.linspace(1, p, p).reshape(p, 1)))
      x = np.random.multivariate_normal(mean=np.zeros(p), cov=Sigma, size=(n,))
      Xbeta = np.matmul(x, beta)
      prob = 1 - np.power((1-mix), np.exp(Xbeta))
      case =  np.random.binomial(1,prob)             # failure case
      u = np.random.uniform(0, 1, n)
      temp = ...
      time = ...
      ctime =  np.random.uniform(0, c, n)
      delta = (time < ctime) * 1              # censoring indicator
      censoringrate = 1 - sum(delta) / n
      print("censoring rate:" + str(censoringrate))
      time = np.minimum(time,ctime)
      y = np.hstack((time.reshape((-1, 1)), ctime.reshape((-1, 1))))
      delta = np.hstack((delta.reshape((-1, 1)), case.reshape((-1,1))))
      return(x,y,delta)
  \<close>
  \<^verbatim>\<open>binomial(1, prob)\<close> raises when a probability is outside \<open>[0, 1]\<close>; arrays of
  different lengths do not combine elementwise. The printed censoring rate is not part of
  the returned value.
\<close>

definition make_data ::
  "nat \<Rightarrow> vec \<Rightarrow> real \<Rightarrow> draws \<Rightarrow> error + (mat \<times> mat \<times> int list list)" where
  "make_data n beta mix d =
     bindE (matvec (x_draw d) beta) (\<lambda>Xbeta.
     bindE (mapE (\<lambda>xb. bindE (np_power (1 - mix) (exp xb)) (\<lambda>q. Inr (1 - q))) Xbeta) (\<lambda>prob.
     if \<not> list_all (\<lambda>q. 0 \<le> q \<and> q \<le> 1) prob then Inl ValueError
     else if \<not> (length Xbeta = n \<and> length (case_draw d) = n \<and> length (u_draw d) = n
                \<and> length (exp_draw d) = n \<and> length (ctime_draw d) = n) then Inl ShapeError
     else
     bindE (mapE (\<lambda>(xb, cs, u, e). failure_time mix xb cs u e)
              (zip Xbeta (zip (case_draw d) (zip (u_draw d) (exp_draw d))))) (\<lambda>time.
     let ctime = ctime_draw d;
         delta = map2 (\<lambda>t c. if t < c then 1 else 0) time ctime;
         time = map2 min time ctime;
         y = map2 (\<lambda>t c. [t, c]) time ctime;
         delta = map2 (\<lambda>dl cs. [dl, cs]) delta (case_draw d)
     in Inr (x_draw d, y, delta))))"

text \<open>
  The draws of \<open>make_Clayton2_data\<close>: \<^verbatim>\<open>uniform(0, 1, n)\<close> twice, then
  \<^verbatim>\<open>uniform(0, c1, n)\<close> and \<^verbatim>\<open>uniform(0, c2, n)\<close>.
\<close>

record clayton_draws =
  u1_draw :: vec
  u2_draw :: vec
  ctime1_draw :: vec
  ctime2_draw :: vec

text \<open>\<^verbatim>\<open>time2 = -np.log(1-u2)/lambda2\<close>, for one observation.\<close>

definition clayton_time2 :: "real \<Rightarrow> real \<Rightarrow> error + real" where
  "clayton_time2 lambda2 u2 =
     bindE (jnp_log (1 - u2)) (\<lambda>l. np_div (- l) lambda2)"

text \<open>
  \<^verbatim>\<open>
  time1 = np.log(1-np.power((1-u2),-theta)
                 + np.power((1-u1), -theta/(1+theta))*np.power((1-u2),-theta))/theta/lambda1
  \<close>
  for one observation; \<open>theta\<close> is a Python number, so \<^verbatim>\<open>-theta/(1+theta)\<close> is a division of
  Python numbers, and \<open>lambda1\<close> is an entry of an array.
\<close>

definition clayton_time1 :: "real \<Rightarrow> real \<Rightarrow> real \<Rightarrow> real \<Rightarrow> error + real" where
  "clayton_time1 theta lambda1 u1 u2 =
     bindE (np_power (1 - u2) (- theta)) (\<lambda>a.
     bindE (py_div (- theta) (1 + theta)) (\<lambda>ex.
     bindE (np_power (1 - u1) ex) (\<lambda>b.
     bindE (np_power (1 - u2) (- theta)) (\<lambda>a'.
     bindE (jnp_log (1 - a + b * a')) (\<lambda>l.
     bindE (np_div l theta) (\<lambda>lt. np_div lt lambda1))))))"

text \<open>
  \<^verbatim>\<open>
  def make_Clayton2_data(n, theta=15, lambda1=1, lambda2=1, c1=1, c2=1):
      u1 = np.random.uniform(0, 1, n)
      u2 = np.random.uniform(0, 1, n)
      time2 = ...
      time1 = ...
      ctime1 = np.random.uniform(0, c1, n)
      ctime2 =  np.random.uniform(0, c2, n)
      delta1 = (time1 < ctime1) * 1
      delta2 = (time2 < ctime2) * 1
      ...
      time1 = np.minimum(time1,ctime1)
      time2 = np.minimum(time2,ctime2)
      y = np.hstack((time1.reshape((-1, 1)), time2.reshape((-1, 1))))
      delta = np.hstack((delta1.reshape((-1, 1)), delta2.reshape((-1, 1))))
      return(y,delta)
  \<close>
  The notebook calls it with arrays \<open>lambda1\<close> and \<open>lambda2\<close> of one rate for each
  observation, as here.
\<close>

definition make_Clayton2_data ::
  "nat \<Rightarrow> real \<Rightarrow> vec \<Rightarrow> vec \<Rightarrow> clayton_draws \<Rightarrow> error + (mat \<times> int list list)" where
  "make_Clayton2_data n theta lambda1 lambda2 d =
     (if \<not> (length (u1_draw d) = n \<and> length (u2_draw d) = n
             \<and> length (ctime1_draw d) = n \<and> length (ctime2_draw d) = n
             \<and> length lambda1 = n \<and> length lambda2 = n) then Inl ShapeError
      else
      bindE (mapE (\<lambda>(l2, u2). clayton_time2 l2 u2) (zip lambda2 (u2_draw d))) (\<lambda>time2.
      bindE (mapE (\<lambda>(l1, u1, u2). clayton_time1 theta l1 u1 u2)
               (zip lambda1 (zip (u1_draw d) (u2_draw d)))) (\<lambda>time1.
      let ctime1 = ctime1_draw d;
          ctime2 = ctime2_draw d;
          delta1 = map2 (\<lambda>t c. if t < c then 1 else 0) time1 ctime1;
          delta2 = map2 (\<lambda>t c. if t < c then 1 else 0) time2 ctime2;
          time1 = map2 min time1 ctime1;
          time2 = map2 min time2 ctime2;
          y = map2 (\<lambda>t1 t2. [t1, t2]) time1 time2;
          delta = map2 (\<lambda>d1 d2. [d1, d2]) delta1 delta2
      in Inr (y, delta))))"

section \<open>The use sites of the external solver\<close>

text \<open>
  \<open>ScopeSolver\<close> is imported from the package \<open>skscope\<close>. What the notebooks do with it is
  recorded as one \<open>use_site\<close> for each solver that is constructed and solved: the first
  positional argument and the sparsity argument of the constructor (a level \<open>s\<close>, or the
  levels \<open>range(lo, hi)\<close>), the names of its further keyword arguments, the loss passed to
  \<open>solve\<close> with the keyword \<open>jit\<close>, and every later access to the solver or to the value
  \<open>solve\<close> returned. \<open>loss_dimension\<close> is the length of the parameter vectors the loss
  accepts with the data in scope at the call: the number of columns the design matrix
  is created with, times the number of classes where the loss reshapes its argument.
\<close>

datatype sparsity = Level nat | Levels nat nat

datatype loss_id =
    Ols_loss
  | Multinomial_regression_loss
  | Competing_risk_objective
  | Multivariate_failure_objective
  | Objective task

datatype access = Return_value | Params_attribute | Get_result string | Other_member string

record use_site =
  dimension :: nat
  sparsity_arg :: sparsity
  extra_keywords :: "string list"
  loss_dimension :: nat
  loss :: loss_id
  jit :: "bool option"
  reads :: "access list"

subsection \<open>The use sites of the gallery notebooks\<close>







section \<open>The benchmark: \<open>test_time\<close>\<close>

text \<open>
  Everything outside the repository that \<open>test_time\<close> calls is a field of the environment
  \<open>env\<close>, indexed by the repetition and the task of the call:
  \<^item> \<open>rng_support i\<close>: \<^verbatim>\<open>rng.choice(np.arange(p), size=s, replace=False)\<close>;
  \<^item> \<open>rng_magnitude i task\<close>: \<^verbatim>\<open>rng.choice(np.arange(1, 4), size=s)\<close>;
  \<^item> \<open>rng_sign i task\<close>: \<^verbatim>\<open>rng.choice([1, -1], size=s)\<close>, or \<^verbatim>\<open>rng.choice([1], size=s)\<close>
    for the task Non-Neg;
  \<^item> \<open>make_glm_data\<close>: \<^verbatim>\<open>abess.datasets.make_glm_data(n=n, p=p, k=s, family=..., coef_=real_coef)\<close>,
    with the fields \<open>x\<close>, \<open>y\<close> and \<open>coef_\<close> of its result;
  \<^item> \<open>abess_fit\<close>: \<open>model.coef_\<close> after \<^verbatim>\<open>model.fit(X, y)\<close>, for the
    \<open>LinearRegression\<close> or \<open>LogisticRegression\<close> of \<open>abess\<close> with \<open>support_size=s\<close>;
  \<^item> \<open>scope_solve\<close>: \<^verbatim>\<open>ScopeSolver(p, sparsity=s).solve(objective, jit=True)\<close>;
  \<^item> \<open>clock\<close>: the two elapsed times measured with \<^verbatim>\<open>time.time()\<close>.
\<close>

datatype family = Gaussian | Binomial

record glm_data =
  data_x :: mat
  data_y :: vec
  data_coef :: vec

record env =
  rng_support :: "nat \<Rightarrow> nat list"
  rng_magnitude :: "nat \<Rightarrow> task \<Rightarrow> int list"
  rng_sign :: "nat \<Rightarrow> task \<Rightarrow> int list"
  make_glm_data :: "nat \<Rightarrow> task \<Rightarrow> nat \<Rightarrow> nat \<Rightarrow> nat \<Rightarrow> family \<Rightarrow> vec \<Rightarrow> glm_data"
  abess_fit :: "nat \<Rightarrow> task \<Rightarrow> nat \<Rightarrow> mat \<Rightarrow> vec \<Rightarrow> vec"
  scope_solve :: "nat \<Rightarrow> task \<Rightarrow> nat \<Rightarrow> nat \<Rightarrow> (vec \<Rightarrow> error + real) \<Rightarrow> vec"
  clock :: "nat \<Rightarrow> task \<Rightarrow> real \<times> real"

text \<open>A row of the data frame \<open>res\<close>, with the columns Task, Model, Accuracy and Time.\<close>

record row =
  row_task :: task
  row_model :: string
  accuracy :: real
  time_taken :: real

fun family_of :: "task \<Rightarrow> family" where
  "family_of Linear = Gaussian"
| "family_of NonNeg = Gaussian"
| "family_of Logistic = Binomial"

text \<open>\<^verbatim>\<open>np.nonzero(v)[0]\<close>: the indices of the entries other than 0.\<close>

definition nonzero :: "vec \<Rightarrow> nat list" where
  "nonzero v = filter (\<lambda>i. v ! i \<noteq> 0) [0..<length v]"

text \<open>\<^verbatim>\<open>len(set(est) & set(truth)) / s\<close>: a division of Python integers, which raises on 0.\<close>

definition support_accuracy :: "nat list \<Rightarrow> nat list \<Rightarrow> nat \<Rightarrow> error + real" where
  "support_accuracy est truth s =
     (if s = 0 then Inl ZeroDivisionError
      else Inr (real (card (set est \<inter> set truth)) / real s))"

text \<open>The elementwise product of two integer draws, stored into the float array.\<close>

definition int_mul :: "int list \<Rightarrow> int list \<Rightarrow> error + vec" where
  "int_mul a b =
     (if length a = length b then Inr (map2 (\<lambda>u v. of_int (u * v)) a b) else Inl ShapeError)"

text \<open>
  \<^verbatim>\<open>real_coef[true_support_set] = vals\<close>: an index out of range raises \<open>IndexError\<close>, a value
  array of another length \<open>ValueError\<close>; with a repeated index the last value stays.
\<close>

definition assign_at :: "vec \<Rightarrow> nat list \<Rightarrow> vec \<Rightarrow> error + vec" where
  "assign_at c idx vals =
     (if \<not> list_all (\<lambda>i. i < length c) idx then Inl IndexError
      else if length idx \<noteq> length vals then Inl ValueError
      else Inr (fold (\<lambda>(i, v) c. c[i := v]) (zip idx vals) c))"

text \<open>The use site of one task: \<^verbatim>\<open>solver = ScopeSolver(p, sparsity=s)\<close> and
  \<^verbatim>\<open>params = solver.solve(objective, jit=True)\<close>, \<open>params\<close> read by \<^verbatim>\<open>np.nonzero(params)\<close>.\<close>

definition objective_site :: "nat \<Rightarrow> nat \<Rightarrow> task \<Rightarrow> use_site" where
  "objective_site p s task =
     \<lparr>dimension = p, sparsity_arg = Level s, extra_keywords = [],
      loss_dimension = p, loss = Objective task, jit = Some True,
      reads = [Return_value]\<rparr>"

type_synonym bench_state = "vec \<times> row list \<times> use_site list"

text \<open>
  The body of the loop over the tasks; its state is \<open>real_coef\<close>, the rows of \<open>res\<close> and the
  use sites so far.
  \<^verbatim>\<open>
  for task in ['Linear', 'Non-Neg', 'Logistic']:
      if task == 'Linear':
          real_coef[true_support_set] = rng.choice(np.arange(1, 4), size=s) * rng.choice([1, -1], size=s)
          data = make_glm_data(n=n, p=p, k=s, family='gaussian', coef_=real_coef)
          model = LinearRegression(support_size=s)
          def objective(params): ...
          solver = ScopeSolver(p, sparsity=s)
      elif task == 'Non-Neg': ...
      elif task == 'Logistic': ...
      X, y = data.x, data.y
      model.fit(X, y)
      acc_abess = len(set(np.nonzero(model.coef_)[0]) & set(true_support_set)) / s
      res.loc[len(res)] = [task, 'abess', acc_abess, t_abess]
      params = solver.solve(objective, jit=True)
      acc_skscope = len(set(np.nonzero(params)[0]) & set(np.nonzero(data.coef_)[0])) / s
      res.loc[len(res)] = [task, 'skscope', acc_skscope, t_skscope]
  \<close>
  \<open>objective\<close> reads \<open>X\<close> and \<open>y\<close> when it is called, after they are bound to the data of
  the task.
\<close>

fun run_task ::
  "env \<Rightarrow> nat \<Rightarrow> nat \<Rightarrow> nat \<Rightarrow> nat \<Rightarrow> nat list \<Rightarrow> task \<Rightarrow> bench_state \<Rightarrow> error + bench_state" where
  "run_task E n p s i true_support_set task (real_coef, res, sites) =
     bindE (int_mul (rng_magnitude E i task) (rng_sign E i task)) (\<lambda>vals.
     bindE (assign_at real_coef true_support_set vals) (\<lambda>real_coef.
     let data = make_glm_data E i task n p s (family_of task) real_coef;
         X = data_x data;
         y = data_y data;
         model_coef = abess_fit E i task s X y
     in
     bindE (support_accuracy (nonzero model_coef) true_support_set s) (\<lambda>acc_abess.
     let res = res @ [\<lparr>row_task = task, row_model = ''abess'', accuracy = acc_abess,
                        time_taken = fst (clock E i task)\<rparr>];
         params = scope_solve E i task p s (objective task X y);
         sites = sites @ [objective_site p s task]
     in
     bindE (support_accuracy (nonzero params) (nonzero (data_coef data)) s) (\<lambda>acc_skscope.
     Inr (real_coef,
          res @ [\<lparr>row_task = task, row_model = ''skscope'', accuracy = acc_skscope,
                   time_taken = snd (clock E i task)\<rparr>],
          sites)))))"

text \<open>
  The body of the loop over the repetitions:
  \<^verbatim>\<open>
  rng = np.random.default_rng(i)
  true_support_set = rng.choice(np.arange(p), size=s, replace=False)
  real_coef = np.zeros(p)
  for task in ['Linear', 'Non-Neg', 'Logistic']: ...
  \<close>
  Drawing \<open>s\<close> of \<open>p\<close> indices without replacement raises \<open>ValueError\<close> when \<open>p < s\<close>.
\<close>

definition run_rep ::
  "env \<Rightarrow> nat \<Rightarrow> nat \<Rightarrow> nat \<Rightarrow> nat \<Rightarrow> row list \<times> use_site list
     \<Rightarrow> error + row list \<times> use_site list" where
  "run_rep E n p s i st =
     (if p < s then Inl ValueError
      else
        let true_support_set = rng_support E i;
            real_coef = replicate p 0
        in bindE (for_loop (run_task E n p s i true_support_set) [Linear, NonNeg, Logistic]
                    (real_coef, fst st, snd st))
             (\<lambda>(real_coef, res, sites). Inr (res, sites)))"

text \<open>
  \<^verbatim>\<open>def test_time(n=500, p=1000, s=5, random_state=None, rep=1)\<close>: \<open>res\<close> starts empty and
  the loop runs over \<open>range(rep)\<close>; the body does not read \<open>random_state\<close>. The model
  returns the rows of \<open>res\<close> and the use sites; the table of means and standard deviations
  that the function prints and returns is computed from \<open>res\<close> and is not modelled.
\<close>

definition test_time ::
  "env \<Rightarrow> nat \<Rightarrow> nat \<Rightarrow> nat \<Rightarrow> nat \<Rightarrow> error + row list \<times> use_site list" where
  "test_time E n p s rep = for_loop (run_rep E n p s) [0..<rep] ([], [])"

text \<open>
  What is stated of the two rows \<open>ra\<close> and \<open>rs\<close> appended for a task in repetition \<open>i\<close>, with
  \<open>supp\<close> the true support drawn for the repetition: both methods are fit on the data of
  one call of \<open>make_glm_data\<close>, each accuracy is the number of indices in both the
  estimated and the true support divided by \<open>s\<close>, the true support read from \<open>data.coef_\<close>
  is the drawn one, of size \<open>s\<close>, and each accuracy lies between 0 and 1.
\<close>

definition recorded ::
  "env \<Rightarrow> nat \<Rightarrow> nat \<Rightarrow> nat \<Rightarrow> nat \<Rightarrow> task \<Rightarrow> nat list \<Rightarrow> row \<Rightarrow> row \<Rightarrow> bool" where
  "recorded E n p s i task supp ra rs \<longleftrightarrow>
     (\<exists>coef data.
              data = make_glm_data E i task n p s (family_of task) coef
            \<and> ra = \<lparr>row_task = task, row_model = ''abess'',
                     accuracy = real (card (set (nonzero (abess_fit E i task s (data_x data) (data_y data)))
                                          \<inter> set supp)) / real s,
                     time_taken = fst (clock E i task)\<rparr>
            \<and> rs = \<lparr>row_task = task, row_model = ''skscope'',
                     accuracy = real (card (set (nonzero (scope_solve E i task p s
                                                    (objective task (data_x data) (data_y data))))
                                          \<inter> set (nonzero (data_coef data)))) / real s,
                     time_taken = snd (clock E i task)\<rparr>
            \<and> set (nonzero (data_coef data)) = set supp
            \<and> card (set supp) = s
            \<and> 0 \<le> accuracy ra \<and> accuracy ra \<le> 1 \<and> 0 \<le> accuracy rs \<and> accuracy rs \<le> 1)"

section \<open>Example inputs\<close>

text \<open>
  One realization of the draws of \<open>make_data\<close> and of \<open>make_Clayton2_data\<close> for a single
  observation.
\<close>

definition example_draws :: draws where
  "example_draws =
     \<lparr>x_draw = [[1]], case_draw = [1], u_draw = [0], exp_draw = [1], ctime_draw = [2]\<rparr>"

definition example_clayton_draws :: clayton_draws where
  "example_clayton_draws =
     \<lparr>u1_draw = [0], u2_draw = [0], ctime1_draw = [1], ctime2_draw = [1]\<rparr>"

text \<open>
  An environment of \<open>test_time\<close> for \<open>p = 2\<close> features and support size \<open>s = 1\<close>: the support
  drawn is \<open>[0]\<close> with coefficient 2, and both methods estimate \<open>[2, 0]\<close>.
\<close>

definition example_env :: env where
  "example_env =
     \<lparr>rng_support = \<lambda>i. [0], rng_magnitude = \<lambda>i task. [2], rng_sign = \<lambda>i task. [1],
      make_glm_data = \<lambda>i task n p k fam c. \<lparr>data_x = [[1, 0]], data_y = [2], data_coef = c\<rparr>,
      abess_fit = \<lambda>i task s X y. [2, 0],
      scope_solve = \<lambda>i task p s f. [2, 0],
      clock = \<lambda>i task. (0, 0)\<rparr>"

text \<open>
  An environment for support size \<open>s = 0\<close>: every draw of size 0 is empty, and no
  coefficient is estimated.
\<close>

definition example_env_no_support :: env where
  "example_env_no_support =
     \<lparr>rng_support = \<lambda>i. [], rng_magnitude = \<lambda>i task. [], rng_sign = \<lambda>i task. [],
      make_glm_data = \<lambda>i task n p k fam c. \<lparr>data_x = [], data_y = [], data_coef = c\<rparr>,
      abess_fit = \<lambda>i task s X y. [],
      scope_solve = \<lambda>i task p s f. [],
      clock = \<lambda>i task. (0, 0)\<rparr>"

section \<open>Lemmas\<close>

subsection \<open>Sums over lists, and the mean-squared error\<close>

lemma sum_list_map2_nth:
  "length a = length b \<Longrightarrow>
   sum_list (map2 f a b) = (\<Sum>i<length a. f (a ! i) (b ! i) :: real)"
proof -
  assume len: "length a = length b"
  have "sum_list (map2 f a b) = (\<Sum>i = 0..<length (map2 f a b). map2 f a b ! i)"
    by (rule sum_list_sum_nth)
  also have "\<dots> = (\<Sum>i = 0..<length a. f (a ! i) (b ! i))"
    using len by (intro sum.cong) auto
  finally show ?thesis by (simp add: lessThan_atLeast0)
qed

lemma sum_list_map_nth:
  "sum_list (map f xs) = (\<Sum>i<length xs. f (xs ! i) :: real)"
proof -
  have "sum_list (map f xs) = (\<Sum>i = 0..<length (map f xs). map f xs ! i)"
    by (rule sum_list_sum_nth)
  also have "\<dots> = (\<Sum>i = 0..<length xs. f (xs ! i))"
    by (intro sum.cong) auto
  finally show ?thesis by (simp add: lessThan_atLeast0)
qed

lemma matvec_shaped:
  "\<forall>row \<in> set X. length row = length v \<Longrightarrow>
   matvec X v = Inr (map (\<lambda>row. \<Sum>j<length v. row ! j * v ! j) X)"
  by (auto simp: matvec_def list_all_iff sum_list_map2_nth)

lemma mse_value:
  assumes "length X = n" and "length y = n" and "0 < n"
    and "\<forall>row \<in> set X. length row = length params"
  shows "(case matvec X params of
            Inl e \<Rightarrow> Inl e
          | Inr xb \<Rightarrow>
              (case vsub y xb of
                 Inl e \<Rightarrow> Inl e
               | Inr r \<Rightarrow> jnp_mean (map (\<lambda>v. v ^ 2) r)))
         = Inr ((1 / real n) *
                (\<Sum>i<n. (y ! i - (\<Sum>j<length params. X ! i ! j * params ! j)) ^ 2))"
proof -
  let ?xb = "map (\<lambda>row. \<Sum>j<length params. row ! j * params ! j) X"
  have mv: "matvec X params = Inr ?xb"
    using assms(4) by (rule matvec_shaped)
  have vs: "vsub y ?xb = Inr (map2 (-) y ?xb)"
    using assms(1,2) by (simp add: vsub_def)
  have ne: "map (\<lambda>v. v ^ 2) (map2 (-) y ?xb) \<noteq> []"
    using assms(1,2,3) by auto
  have len: "length (map (\<lambda>v. v ^ 2) (map2 (-) y ?xb)) = n"
    using assms(1,2) by simp
  have "sum_list (map (\<lambda>v. v ^ 2) (map2 (-) y ?xb))
        = (\<Sum>i<n. (map2 (-) y ?xb ! i) ^ 2)"
    using assms(1,2) by (simp add: sum_list_map_nth)
  also have "\<dots> = (\<Sum>i<n. (y ! i - (\<Sum>j<length params. X ! i ! j * params ! j)) ^ 2)"
    using assms(1,2) by (intro sum.cong) auto
  finally have s: "sum_list (map (\<lambda>v. v ^ 2) (map2 (-) y ?xb))
        = (\<Sum>i<n. (y ! i - (\<Sum>j<length params. X ! i ! j * params ! j)) ^ 2)" .
  show ?thesis
    using ne len s by (simp add: mv vs jnp_mean_def)
qed

subsection \<open>The multinomial loss\<close>

lemma bindE_Inr [simp]: "bindE (Inr a) f = f a"
  by (simp add: bindE_def)

lemma bindE_Inl [simp]: "bindE (Inl e) f = Inl e"
  by (simp add: bindE_def)

lemma mapE_Inr: "\<forall>x \<in> set xs. f x = Inr (g x) \<Longrightarrow> mapE f xs = Inr (map g xs)"
  by (induction xs) auto

lemma reshape_nth:
  assumes "length v = p * m" "j < p" "k < m"
  shows "reshape p m v = Inr (map (\<lambda>j. take m (drop (j * m) v)) [0..<p])"
    and "take m (drop (j * m) v) ! k = v ! (j * m + k)"
    and "length (take m (drop (j * m) v)) = m"
proof -
  show "reshape p m v = Inr (map (\<lambda>j. take m (drop (j * m) v)) [0..<p])"
    using assms by (simp add: reshape_def)
  have "j * m + m \<le> p * m"
  proof -
    have "Suc j \<le> p" using assms(2) by simp
    then have "Suc j * m \<le> p * m" by (rule mult_le_mono1)
    then show ?thesis by (simp add: add.commute)
  qed
  then have le: "j * m + m \<le> length v" using assms(1) by simp
  show "take m (drop (j * m) v) ! k = v ! (j * m + k)"
    using assms(3) le by simp
  show "length (take m (drop (j * m) v)) = m"
    using le by simp
qed


lemma sum_list_map_upt: "sum_list (map f [0..<m]) = (\<Sum>k<m. f k :: real)"
  by (simp add: sum_list_map_nth)

lemma multinomial_value:
  assumes nX: "length X = n" and npos: "0 < n"
    and shX: "\<forall>row \<in> set X. length row = p"
    and ny: "length y = n" and shy: "\<forall>row \<in> set y. length row = m"
    and lp: "length params = p * m"
  defines "L \<equiv> \<lambda>i k. \<Sum>j<p. X ! i ! j * params ! (j * m + k)"
  shows "multinomial_regression_loss p m X y params
         = Inr (- ((1 / real n) *
               (\<Sum>i<n. \<Sum>k<m. y ! i ! k * ln (exp (L i k) / (\<Sum>j<m. exp (L i j))))))"
proof -
  let ?B = "map (\<lambda>j. take m (drop (j * m) params)) [0..<p]"
  have rs: "reshape p m params = Inr ?B"
    using lp by (simp add: reshape_def)
  have Bnth: "?B ! j ! k = params ! (j * m + k)" if "j < p" "k < m" for j k
    using reshape_nth(2) [OF lp that] that by simp
  have Blen: "list_all (\<lambda>r. length r = m) ?B"
    using reshape_nth(3) [OF lp] by (cases "m = 0") (auto simp: list_all_iff)
  let ?logits = "map (\<lambda>i. map (\<lambda>k. L i k) [0..<m]) [0..<n]"
  have row_eq: "sum_list (map2 (\<lambda>x b. x * b ! k) (X ! i) ?B) = L i k"
    if "i < n" "k < m" for i k
  proof -
    have len: "length (X ! i) = length ?B"
      using shX nX that(1) by simp
    have "sum_list (map2 (\<lambda>x b. x * b ! k) (X ! i) ?B)
          = (\<Sum>j<length (X ! i). X ! i ! j * ?B ! j ! k)"
      using len by (rule sum_list_map2_nth)
    also have "\<dots> = (\<Sum>j<p. X ! i ! j * ?B ! j ! k)"
      using shX nX that(1) by simp
    also have "\<dots> = (\<Sum>j<p. X ! i ! j * params ! (j * m + k))"
      using Bnth that(2) by (intro sum.cong) auto
    finally show ?thesis by (simp add: L_def)
  qed
  have mm: "matmul m X ?B = Inr ?logits"
  proof -
    have "map (\<lambda>row. map (\<lambda>k. sum_list (map2 (\<lambda>x b. x * b ! k) row ?B)) [0..<m]) X = ?logits"
      using nX row_eq by (intro nth_equalityI) auto
    moreover have "list_all (\<lambda>row. length row = length ?B) X"
      using shX by (simp add: list_all_iff)
    ultimately show ?thesis
      using Blen by (simp add: matmul_def)
  qed
  define S where "S = (\<lambda>i. \<Sum>j<m. exp (L i j))"
  let ?sm = "map (\<lambda>i. map (\<lambda>k. exp (L i k) / S i) [0..<m]) [0..<n]"
  have sm: "map (\<lambda>row. map (\<lambda>v. exp v / sum_list (map exp row)) row) ?logits = ?sm"
    by (simp add: S_def comp_def sum_list_map_upt)
  have Spos: "0 < S i" if "0 < m" for i
    unfolding S_def using that by (intro sum_pos) auto
  have lg: "mapE (mapE jnp_log) ?sm = Inr (map (map ln) ?sm)"
  proof (rule mapE_Inr, rule ballI)
    fix row assume "row \<in> set ?sm"
    then obtain i where row: "row = map (\<lambda>k. exp (L i k) / S i) [0..<m]" by auto
    show "mapE jnp_log row = Inr (map ln row)"
    proof (rule mapE_Inr, rule ballI)
      fix v assume "v \<in> set row"
      then obtain k where "k < m" and v: "v = exp (L i k) / S i" using row by auto
      then have "0 < v" using Spos [of i] by simp
      then show "jnp_log v = Inr (ln v)" by (simp add: jnp_log_def)
    qed
  qed
  let ?lp = "map (map ln) ?sm"
  have me: "mmul_elem y ?lp = Inr (map2 (map2 (*)) y ?lp)"
  proof -
    have "list_all2 (\<lambda>a b. length a = length b) y ?lp"
      using ny shy by (auto simp: list_all2_conv_all_nth)
    then show ?thesis using ny by (simp add: mmul_elem_def)
  qed
  have sums: "map sum_list (map2 (map2 (*)) y ?lp)
              = map (\<lambda>i. \<Sum>k<m. y ! i ! k * ln (exp (L i k) / S i)) [0..<n]"
  proof (rule nth_equalityI)
    show "length (map sum_list (map2 (map2 (*)) y ?lp))
          = length (map (\<lambda>i. \<Sum>k<m. y ! i ! k * ln (exp (L i k) / S i)) [0..<n])"
      using ny by simp
  next
    fix i assume "i < length (map sum_list (map2 (map2 (*)) y ?lp))"
    then have i: "i < n" using ny by simp
    have ly: "length (y ! i) = m" using shy ny i by simp
    have "sum_list (map2 (*) (y ! i) (map (\<lambda>k. ln (exp (L i k) / S i)) [0..<m]))
          = (\<Sum>k<m. y ! i ! k * ln (exp (L i k) / S i))"
      using ly by (simp add: sum_list_map2_nth)
    then show "map sum_list (map2 (map2 (*)) y ?lp) ! i
               = map (\<lambda>i. \<Sum>k<m. y ! i ! k * ln (exp (L i k) / S i)) [0..<n] ! i"
      using i ny by (simp add: comp_def)
  qed
  have mean: "jnp_mean (map (\<lambda>i. \<Sum>k<m. y ! i ! k * ln (exp (L i k) / S i)) [0..<n])
              = Inr ((1 / real n) * (\<Sum>i<n. \<Sum>k<m. y ! i ! k * ln (exp (L i k) / S i)))"
    using npos by (simp add: jnp_mean_def sum_list_map_upt)
  show ?thesis
    unfolding multinomial_regression_loss_def
    by (simp only: rs bindE_Inr mm Let_def sm lg me sums mean) (simp add: S_def)
qed

subsection \<open>The partial-likelihood objectives\<close>

lemma for_loop_pure:
  "\<forall>i \<in> set is. \<forall>s. P s \<longrightarrow> body i s = Inr (g i s) \<and> P (g i s) \<Longrightarrow> P s \<Longrightarrow>
   for_loop body is s = Inr (fold g is s)"
  by (induction "is" arbitrary: s) auto

lemma fold_update_upt:
  "k \<le> length ls \<Longrightarrow>
   fold (\<lambda>i ls. ls[i := g i]) [0..<k] ls = map g [0..<k] @ drop k ls"
proof (induction k)
  case 0 then show ?case by simp
next
  case (Suc k)
  then have "fold (\<lambda>i ls. ls[i := g i]) [0..<Suc k] ls
             = (map g [0..<k] @ drop k ls)[k := g k]" by simp
  also have "\<dots> = map g [0..<k] @ (drop k ls)[0 := g k]"
    by (simp add: list_update_append)
  also have "(drop k ls)[0 := g k] = g k # drop (Suc k) ls"
  proof -
    have "drop k ls = ls ! k # drop (Suc k) ls"
      using Suc.prems by (simp add: Cons_nth_drop_Suc)
    then show ?thesis by simp
  qed
  finally show ?case by simp
qed

lemma inter_lessThan_Collect: "{..<n} \<inter> {j. P j} = {j. j < (n::nat) \<and> P j}"
  by auto

lemma indicator_dot:
  assumes "length rs = n" and "length v = n"
    and "\<forall>j<n. rs ! j = of_bool (P j)"
  shows "dot rs v = Inr (\<Sum>j | j < n \<and> P j. v ! j)"
proof -
  have "sum_list (map2 (*) rs v) = (\<Sum>j<length rs. rs ! j * v ! j)"
    using assms(1,2) by (simp add: sum_list_map2_nth)
  also have "\<dots> = (\<Sum>j<n. of_bool (P j) * v ! j)"
    using assms(1,3) by (intro sum.cong) auto
  also have "\<dots> = (\<Sum>j | j < n \<and> P j. v ! j)"
    by (simp add: inter_lessThan_Collect)
  finally show ?thesis using assms(1,2) by (simp add: dot_def)
qed

lemma exp_sum_ge:
  assumes "i < (n::nat)" and "P i"
  shows "exp (f i) \<le> (\<Sum>j | j < n \<and> P j. exp (f j :: real))"
proof (rule member_le_sum)
  show "i \<in> {j. j < n \<and> P j}" using assms by simp
  show "finite {j. j < n \<and> P j}" by simp
qed simp

lemma matvec_nth:
  assumes "\<forall>row \<in> set x. length row = length params" and "length x = n"
  shows "matvec x params = Inr (map (\<lambda>i. \<Sum>l<length params. x ! i ! l * params ! l) [0..<n])"
proof -
  have "map (\<lambda>row. \<Sum>j<length params. row ! j * params ! j) x
        = map (\<lambda>i. \<Sum>l<length params. x ! i ! l * params ! l) [0..<n]"
    using assms(2) by (intro nth_equalityI) auto
  then show ?thesis using matvec_shaped [OF assms(1)] by simp
qed

lemma riskset_value:
  assumes "length y = n" and "length delta = n" and "i < n"
    and "\<forall>r \<in> set y. length r = 2" and "\<forall>r \<in> set delta. length r = 2"
  shows "riskset y delta i
         = Inr (map (\<lambda>j. of_bool (y ! j ! 0 \<ge> y ! i ! 0
                   \<or> (delta ! j ! 1 = 0 \<and> delta ! j ! 0 = 1
                       \<and> y ! j ! 0 \<le> y ! i ! 0 \<and> y ! j ! 1 \<ge> y ! i ! 0))) [0..<n])"
proof -
  have "map2 (\<lambda>yr dr. of_bool (yr ! 0 \<ge> y ! i ! 0
                 \<or> (dr ! 1 = 0 \<and> dr ! 0 = 1 \<and> yr ! 0 \<le> y ! i ! 0 \<and> yr ! 1 \<ge> y ! i ! 0)))
             y delta
        = map (\<lambda>j. of_bool (y ! j ! 0 \<ge> y ! i ! 0
                   \<or> (delta ! j ! 1 = 0 \<and> delta ! j ! 0 = 1
                       \<and> y ! j ! 0 \<le> y ! i ! 0 \<and> y ! j ! 1 \<ge> y ! i ! 0)) :: real) [0..<n]"
    using assms(1,2) by (intro nth_equalityI) auto
  then show ?thesis
    using assms by (simp add: riskset_def list_all_iff)
qed

lemma at_risk_value:
  assumes "length y = n" and "i < n" and "k < 2"
    and "\<forall>r \<in> set y. length r = 2"
  shows "at_risk y k i = Inr (map (\<lambda>j. of_bool (y ! j ! k \<ge> y ! i ! k)) [0..<n])"
proof -
  have "map (\<lambda>r. of_bool (r ! k \<ge> y ! i ! k)) y
        = (map (\<lambda>j. of_bool (y ! j ! k \<ge> y ! i ! k)) [0..<n] :: real list)"
    using assms(1) by (intro nth_equalityI) auto
  then show ?thesis
    using assms by (simp add: at_risk_def list_all_iff)
qed

lemma zero_one_prod:
  assumes "a = 0 \<or> a = (1::int)" and "b = 0 \<or> b = (1::int)"
  shows "(of_int a :: real) * of_int b = of_bool (a = 1 \<and> b = 1)"
  using assms by auto

lemma zero_one_of_int:
  assumes "a = 0 \<or> a = (1::int)"
  shows "(of_int a :: real) = of_bool (a = 1)"
  using assms by auto

lemma competing_risk_value:
  assumes nx: "length x = n" and ny: "length y = n" and nd: "length delta = n"
    and npos: "0 < n"
    and shx: "\<forall>row \<in> set x. length row = length params"
    and shy: "\<forall>r \<in> set y. length r = 2" and shd: "\<forall>r \<in> set delta. length r = 2"
    and bin: "\<forall>r \<in> set delta. \<forall>v \<in> set r. v = 0 \<or> v = 1"
  defines "xb \<equiv> \<lambda>i. \<Sum>l<length params. x ! i ! l * params ! l"
  defines "R \<equiv> \<lambda>i j. y ! j ! 0 \<ge> y ! i ! 0
                   \<or> (delta ! j ! 1 = 0 \<and> delta ! j ! 0 = 1
                       \<and> y ! j ! 0 \<le> y ! i ! 0 \<and> y ! j ! 1 \<ge> y ! i ! 0)"
  shows "competing_risk_objective n x y delta params
         = Inr ((1 / real n) *
             (\<Sum>i | i < n \<and> delta ! i ! 0 = 1 \<and> delta ! i ! 1 = 1.
                ln (\<Sum>j | j < n \<and> R i j. exp (xb j)) - xb i))"
proof -
  define D where "D = (\<lambda>i. \<Sum>j | j < n \<and> R i j. exp (xb j))"
  let ?Xbeta = "map xb [0..<n]"
  have mv: "matvec x params = Inr ?Xbeta"
    unfolding xb_def using shx nx by (rule matvec_nth)
  have step: "bindE (riskset y delta i) (\<lambda>rs.
              bindE (dot rs (map exp ?Xbeta)) (\<lambda>d.
              bindE (jnp_log d) (\<lambda>l. Inr (s[i := l])))) = Inr (s[i := ln (D i)])"
    if "i < n" for i and s :: vec
  proof -
    have rs: "riskset y delta i = Inr (map (\<lambda>j. of_bool (R i j)) [0..<n])"
      unfolding R_def using ny nd that shy shd by (rule riskset_value)
    have "dot (map (\<lambda>j. of_bool (R i j)) [0..<n]) (map exp ?Xbeta)
          = Inr (\<Sum>j | j < n \<and> R i j. map exp ?Xbeta ! j)"
      by (rule indicator_dot) auto
    also have "(\<Sum>j | j < n \<and> R i j. map exp ?Xbeta ! j) = D i"
      unfolding D_def by (intro sum.cong) auto
    finally have d: "dot (map (\<lambda>j. of_bool (R i j)) [0..<n]) (map exp ?Xbeta) = Inr (D i)" .
    have "R i i" by (simp add: R_def)
    then have "exp (xb i) \<le> D i"
      unfolding D_def using that by (intro exp_sum_ge) auto
    then have "0 < D i"
      using exp_gt_zero [of "xb i"] by linarith
    then have lg: "jnp_log (D i) = Inr (ln (D i))"
      by (simp add: jnp_log_def)
    show ?thesis by (simp only: rs d lg bindE_Inr)
  qed
  have loop: "for_loop (\<lambda>i logsum.
              bindE (riskset y delta i) (\<lambda>rs.
              bindE (dot rs (map exp ?Xbeta)) (\<lambda>d.
              bindE (jnp_log d) (\<lambda>l. Inr (logsum[i := l])))))
            [0..<n] (zeros_like ?Xbeta) = Inr (map (\<lambda>i. ln (D i)) [0..<n])"
  proof -
    have "for_loop (\<lambda>i logsum.
              bindE (riskset y delta i) (\<lambda>rs.
              bindE (dot rs (map exp ?Xbeta)) (\<lambda>d.
              bindE (jnp_log d) (\<lambda>l. Inr (logsum[i := l])))))
            [0..<n] (zeros_like ?Xbeta)
          = Inr (fold (\<lambda>i s. s[i := ln (D i)]) [0..<n] (zeros_like ?Xbeta))"
      by (rule for_loop_pure [where P = "\<lambda>_. True"]) (auto simp del: map_map simp: step)
    moreover have "fold (\<lambda>i s. s[i := ln (D i)]) [0..<n] (zeros_like ?Xbeta)
          = map (\<lambda>i. ln (D i)) [0..<n] @ drop n (zeros_like ?Xbeta)"
      by (rule fold_update_upt) (simp add: zeros_like_def)
    ultimately show ?thesis by (simp add: zeros_like_def)
  qed
  have c0: "col 0 delta = Inr (map (\<lambda>r. of_int (r ! 0)) delta)"
    and c1: "col 1 delta = Inr (map (\<lambda>r. of_int (r ! 1)) delta)"
    using shd by (auto simp: col_def list_all_iff)
  let ?w = "map2 (*) (map (\<lambda>r. of_int (r ! 0)) delta) (map (\<lambda>r. real_of_int (r ! 1)) delta)"
  have vm: "vmul (map (\<lambda>r. of_int (r ! 0)) delta) (map (\<lambda>r. of_int (r ! 1)) delta) = Inr ?w"
    by (simp add: vmul_def)
  have wn: "?w ! i = of_bool (delta ! i ! 0 = 1 \<and> delta ! i ! 1 = 1)" if "i < n" for i
  proof -
    have mem: "delta ! i \<in> set delta" using that nd by simp
    then have l2: "length (delta ! i) = 2" using shd by blast
    have "delta ! i ! 0 \<in> set (delta ! i)" "delta ! i ! 1 \<in> set (delta ! i)"
      using l2 by simp_all
    then have "delta ! i ! 0 = 0 \<or> delta ! i ! 0 = 1" "delta ! i ! 1 = 0 \<or> delta ! i ! 1 = 1"
      using bin mem by blast+
    then show ?thesis
      using that nd by (simp add: zero_one_prod)
  qed
  have wl: "length ?w = n" using nd by simp
  have da: "dot ?w (map (\<lambda>i. ln (D i)) [0..<n])
            = Inr (\<Sum>i | i < n \<and> delta ! i ! 0 = 1 \<and> delta ! i ! 1 = 1. ln (D i))"
  proof -
    have "dot ?w (map (\<lambda>i. ln (D i)) [0..<n])
          = Inr (\<Sum>i | i < n \<and> (delta ! i ! 0 = 1 \<and> delta ! i ! 1 = 1).
                   map (\<lambda>i. ln (D i)) [0..<n] ! i)"
      using wl wn by (intro indicator_dot) auto
    also have "(\<Sum>i | i < n \<and> (delta ! i ! 0 = 1 \<and> delta ! i ! 1 = 1).
                   map (\<lambda>i. ln (D i)) [0..<n] ! i)
               = (\<Sum>i | i < n \<and> delta ! i ! 0 = 1 \<and> delta ! i ! 1 = 1. ln (D i))"
      by (intro sum.cong) auto
    finally show ?thesis .
  qed
  have db: "dot ?w ?Xbeta
            = Inr (\<Sum>i | i < n \<and> delta ! i ! 0 = 1 \<and> delta ! i ! 1 = 1. xb i)"
  proof -
    have "dot ?w ?Xbeta
          = Inr (\<Sum>i | i < n \<and> (delta ! i ! 0 = 1 \<and> delta ! i ! 1 = 1). ?Xbeta ! i)"
      using wl wn by (intro indicator_dot) auto
    also have "(\<Sum>i | i < n \<and> (delta ! i ! 0 = 1 \<and> delta ! i ! 1 = 1). ?Xbeta ! i)
               = (\<Sum>i | i < n \<and> delta ! i ! 0 = 1 \<and> delta ! i ! 1 = 1. xb i)"
      by (intro sum.cong) auto
    finally show ?thesis .
  qed
  have "competing_risk_objective n x y delta params
        = Inr ((\<Sum>i | i < n \<and> delta ! i ! 0 = 1 \<and> delta ! i ! 1 = 1. ln (D i)) / real n
             - (\<Sum>i | i < n \<and> delta ! i ! 0 = 1 \<and> delta ! i ! 1 = 1. xb i) / real n)"
    unfolding competing_risk_objective_def
    using npos by (simp only: mv bindE_Inr loop c0 c1 vm da db div_n_def) simp
  also have "(\<Sum>i | i < n \<and> delta ! i ! 0 = 1 \<and> delta ! i ! 1 = 1. ln (D i)) / real n
             - (\<Sum>i | i < n \<and> delta ! i ! 0 = 1 \<and> delta ! i ! 1 = 1. xb i) / real n
         = (1 / real n) *
             (\<Sum>i | i < n \<and> delta ! i ! 0 = 1 \<and> delta ! i ! 1 = 1. ln (D i) - xb i)"
    by (simp add: sum_subtractf diff_divide_distrib)
  finally show ?thesis by (simp add: D_def)
qed

lemma fold_update_pair:
  "fold (\<lambda>i (s1, s2). (s1[i := g1 i], s2[i := g2 i])) is (a, b)
   = (fold (\<lambda>i s. s[i := g1 i]) is a, fold (\<lambda>i s. s[i := g2 i]) is b)"
  by (induction "is" arbitrary: a b) auto

lemma multivariate_failure_value:
  assumes nx: "length x = n" and ny: "length y = n" and nd: "length delta = n"
    and npos: "0 < n"
    and shx: "\<forall>row \<in> set x. length row = length params"
    and shy: "\<forall>r \<in> set y. length r = 2" and shd: "\<forall>r \<in> set delta. length r = 2"
    and bin: "\<forall>r \<in> set delta. \<forall>v \<in> set r. v = 0 \<or> v = 1"
  defines "xb \<equiv> \<lambda>i. \<Sum>l<length params. x ! i ! l * params ! l"
  shows "multivariate_failure_objective n x y delta params
         = Inr ((1 / real n) *
             (\<Sum>k<2. \<Sum>i | i < n \<and> delta ! i ! k = 1.
                ln (\<Sum>j | j < n \<and> y ! j ! k \<ge> y ! i ! k. exp (xb j)) - xb i))"
proof -
  define D where "D = (\<lambda>k i. \<Sum>j | j < n \<and> y ! j ! k \<ge> y ! i ! k. exp (xb j))"
  let ?Xbeta = "map xb [0..<n]"
  have mv: "matvec x params = Inr ?Xbeta"
    unfolding xb_def using shx nx by (rule matvec_nth)
  have half: "at_risk y k i = Inr (map (\<lambda>j. of_bool (y ! j ! k \<ge> y ! i ! k)) [0..<n])
              \<and> dot (map (\<lambda>j. of_bool (y ! j ! k \<ge> y ! i ! k)) [0..<n]) (map exp ?Xbeta)
                  = Inr (D k i)
              \<and> jnp_log (D k i) = Inr (ln (D k i))"
    if "i < n" "k < 2" for i k
  proof -
    have rs: "at_risk y k i = Inr (map (\<lambda>j. of_bool (y ! j ! k \<ge> y ! i ! k)) [0..<n])"
      using ny that shy by (rule at_risk_value)
    have "dot (map (\<lambda>j. of_bool (y ! j ! k \<ge> y ! i ! k)) [0..<n]) (map exp ?Xbeta)
          = Inr (\<Sum>j | j < n \<and> y ! j ! k \<ge> y ! i ! k. map exp ?Xbeta ! j)"
      by (rule indicator_dot) auto
    also have "(\<Sum>j | j < n \<and> y ! j ! k \<ge> y ! i ! k. map exp ?Xbeta ! j) = D k i"
      unfolding D_def by (intro sum.cong) auto
    finally have d: "dot (map (\<lambda>j. of_bool (y ! j ! k \<ge> y ! i ! k)) [0..<n]) (map exp ?Xbeta)
                     = Inr (D k i)" .
    have "exp (xb i) \<le> D k i"
      unfolding D_def using that(1) by (intro exp_sum_ge) auto
    then have "0 < D k i"
      using exp_gt_zero [of "xb i"] by linarith
    then have lg: "jnp_log (D k i) = Inr (ln (D k i))"
      by (simp add: jnp_log_def)
    show ?thesis using rs d lg by blast
  qed
  have step: "(case s of (logsum1, logsum2) \<Rightarrow>
              bindE (at_risk y 0 i) (\<lambda>r1.
              bindE (dot r1 (map exp ?Xbeta)) (\<lambda>d1.
              bindE (jnp_log d1) (\<lambda>l1.
              bindE (at_risk y 1 i) (\<lambda>r2.
              bindE (dot r2 (map exp ?Xbeta)) (\<lambda>d2.
              bindE (jnp_log d2) (\<lambda>l2. Inr (logsum1[i := l1], logsum2[i := l2]))))))))
              = Inr (case s of (s1, s2) \<Rightarrow> (s1[i := ln (D 0 i)], s2[i := ln (D 1 i)]))"
    if "i < n" for i and s :: "vec \<times> vec"
  proof -
    have h0: "at_risk y 0 i = Inr (map (\<lambda>j. of_bool (y ! j ! 0 \<ge> y ! i ! 0)) [0..<n])"
      "dot (map (\<lambda>j. of_bool (y ! j ! 0 \<ge> y ! i ! 0)) [0..<n]) (map exp ?Xbeta) = Inr (D 0 i)"
      "jnp_log (D 0 i) = Inr (ln (D 0 i))"
      using half [of i 0] that by simp_all
    have h1: "at_risk y 1 i = Inr (map (\<lambda>j. of_bool (y ! j ! 1 \<ge> y ! i ! 1)) [0..<n])"
      "dot (map (\<lambda>j. of_bool (y ! j ! 1 \<ge> y ! i ! 1)) [0..<n]) (map exp ?Xbeta) = Inr (D 1 i)"
      "jnp_log (D 1 i) = Inr (ln (D 1 i))"
      using half [of i 1] that by simp_all
    obtain a b where s: "s = (a, b)" by (cases s)
    show ?thesis
      unfolding s by (simp only: prod.case bindE_Inr h0 h1)
  qed
  have loop: "for_loop (\<lambda>i (logsum1, logsum2).
              bindE (at_risk y 0 i) (\<lambda>r1.
              bindE (dot r1 (map exp ?Xbeta)) (\<lambda>d1.
              bindE (jnp_log d1) (\<lambda>l1.
              bindE (at_risk y 1 i) (\<lambda>r2.
              bindE (dot r2 (map exp ?Xbeta)) (\<lambda>d2.
              bindE (jnp_log d2) (\<lambda>l2. Inr (logsum1[i := l1], logsum2[i := l2]))))))))
            [0..<n] (zeros_like ?Xbeta, zeros_like ?Xbeta)
            = Inr (map (\<lambda>i. ln (D 0 i)) [0..<n], map (\<lambda>i. ln (D 1 i)) [0..<n])"
  proof -
    have "for_loop (\<lambda>i (logsum1, logsum2).
              bindE (at_risk y 0 i) (\<lambda>r1.
              bindE (dot r1 (map exp ?Xbeta)) (\<lambda>d1.
              bindE (jnp_log d1) (\<lambda>l1.
              bindE (at_risk y 1 i) (\<lambda>r2.
              bindE (dot r2 (map exp ?Xbeta)) (\<lambda>d2.
              bindE (jnp_log d2) (\<lambda>l2. Inr (logsum1[i := l1], logsum2[i := l2]))))))))
            [0..<n] (zeros_like ?Xbeta, zeros_like ?Xbeta)
          = Inr (fold (\<lambda>i (s1, s2). (s1[i := ln (D 0 i)], s2[i := ln (D 1 i)])) [0..<n]
                  (zeros_like ?Xbeta, zeros_like ?Xbeta))"
    proof (rule for_loop_pure [where P = "\<lambda>_. True"], intro ballI allI impI conjI TrueI)
      fix i and s :: "vec \<times> vec"
      assume "i \<in> set [0..<n]"
      then have "i < n" by simp
      then show "(case s of (logsum1, logsum2) \<Rightarrow>
              bindE (at_risk y 0 i) (\<lambda>r1.
              bindE (dot r1 (map exp ?Xbeta)) (\<lambda>d1.
              bindE (jnp_log d1) (\<lambda>l1.
              bindE (at_risk y 1 i) (\<lambda>r2.
              bindE (dot r2 (map exp ?Xbeta)) (\<lambda>d2.
              bindE (jnp_log d2) (\<lambda>l2. Inr (logsum1[i := l1], logsum2[i := l2]))))))))
              = Inr (case s of (s1, s2) \<Rightarrow> (s1[i := ln (D 0 i)], s2[i := ln (D 1 i)]))"
        by (rule step)
    qed simp
    moreover have "fold (\<lambda>i s. s[i := ln (D k i)]) [0..<n] (zeros_like ?Xbeta)
          = map (\<lambda>i. ln (D k i)) [0..<n]" for k
      using fold_update_upt [of n "zeros_like ?Xbeta" "\<lambda>i. ln (D k i)"]
      by (simp add: zeros_like_def)
    ultimately show ?thesis by (simp add: fold_update_pair)
  qed
  have ck: "col k delta = Inr (map (\<lambda>r. of_int (r ! k)) delta)" if "k < 2" for k
    using shd that by (auto simp: col_def list_all_iff)
  have wn: "map (\<lambda>r. real_of_int (r ! k)) delta ! i = of_bool (delta ! i ! k = 1)"
    if "i < n" "k < 2" for i k
  proof -
    have mem: "delta ! i \<in> set delta" using that nd by simp
    then have l2: "length (delta ! i) = 2" using shd by blast
    have "delta ! i ! k \<in> set (delta ! i)"
      using l2 that(2) by simp
    then have "delta ! i ! k = 0 \<or> delta ! i ! k = 1"
      using bin mem by blast
    then show ?thesis
      using that nd by (simp add: zero_one_of_int)
  qed
  have dk: "dot (map (\<lambda>r. real_of_int (r ! k)) delta) (map f [0..<n])
            = Inr (\<Sum>i | i < n \<and> delta ! i ! k = 1. f i)" if "k < 2" for k f
  proof -
    have "dot (map (\<lambda>r. real_of_int (r ! k)) delta) (map f [0..<n])
          = Inr (\<Sum>i | i < n \<and> delta ! i ! k = 1. map f [0..<n] ! i)"
      using wn that nd by (intro indicator_dot) auto
    also have "(\<Sum>i | i < n \<and> delta ! i ! k = 1. map f [0..<n] ! i)
               = (\<Sum>i | i < n \<and> delta ! i ! k = 1. f i)"
      by (intro sum.cong) auto
    finally show ?thesis .
  qed
  have "multivariate_failure_objective n x y delta params
        = Inr (((\<Sum>i | i < n \<and> delta ! i ! 0 = 1. ln (D 0 i))
              + (\<Sum>i | i < n \<and> delta ! i ! 1 = 1. ln (D 1 i))
              - (\<Sum>i | i < n \<and> delta ! i ! 0 = 1. xb i)
              - (\<Sum>i | i < n \<and> delta ! i ! 1 = 1. xb i)) / real n)"
    unfolding multivariate_failure_objective_def
    using npos
    by (simp only: mv bindE_Inr loop prod.case ck [of 0] ck [of 1] dk [of 0] dk [of 1] div_n_def)
       simp
  also have "((\<Sum>i | i < n \<and> delta ! i ! 0 = 1. ln (D 0 i))
              + (\<Sum>i | i < n \<and> delta ! i ! 1 = 1. ln (D 1 i))
              - (\<Sum>i | i < n \<and> delta ! i ! 0 = 1. xb i)
              - (\<Sum>i | i < n \<and> delta ! i ! 1 = 1. xb i)) / real n
        = (1 / real n) * (\<Sum>k<2. \<Sum>i | i < n \<and> delta ! i ! k = 1. ln (D k i) - xb i)"
    by (simp add: sum_subtractf numeral_2_eq_2 lessThan_Suc)
  finally show ?thesis by (simp add: D_def)
qed


lemma Collect_less_2:
  "{i. i < (2::nat) \<and> P i} = (if P 0 then {0} else {}) \<union> (if P 1 then {1} else {})"
proof -
  have eq: "i < 2 \<longleftrightarrow> i = 0 \<or> i = 1" for i :: nat by arith
  have "{i. i < (2::nat) \<and> P i} = {i. i = 0 \<and> P i} \<union> {i. i = 1 \<and> P i}"
    unfolding eq by blast
  also have "{i. i = 0 \<and> P i} = (if P 0 then {0} else {})"
    by (simp add: Collect_conv_if)
  also have "{i. i = 1 \<and> P i} = (if P 1 then {1} else {})"
    by (simp only: Collect_conv_if)
  finally show ?thesis .
qed

lemma sum_less_2:
  "(\<Sum>i | i < (2::nat) \<and> P i. f i)
   = (if P 0 then f 0 else 0) + (if P 1 then f 1 else (0::real))"
  unfolding Collect_less_2 by simp

lemma card_less_2:
  "card {i. i < (2::nat) \<and> P i} = (if P 0 then 1 else 0) + (if P 1 then 1 else 0)"
  unfolding Collect_less_2 by simp

subsection \<open>The data simulators return, and keep the censoring invariant\<close>









lemma make_data_example:
  "make_data 1 [0] (1 / 2) example_draws = Inr ([[1]], [[0, 2]], [[1, 1]])"
  by (simp add: example_draws_def make_data_def matvec_def failure_time_def np_power_def
        py_div_def np_div_def jnp_log_def)

lemma make_Clayton2_data_example:
  "make_Clayton2_data 1 1 [1] [1] example_clayton_draws = Inr ([[0, 0]], [[1, 1]])"
  by (simp add: example_clayton_draws_def make_Clayton2_data_def clayton_time1_def
        clayton_time2_def np_power_def py_div_def np_div_def jnp_log_def)

subsection \<open>The rows and use sites of \<open>test_time\<close>\<close>

lemma concat_replicate_Suc_end:
  "concat (replicate (Suc k) xs) = concat (replicate k xs) @ xs"
  by (induction k) simp_all

lemma for_loop_append:
  "for_loop body (xs @ ys) s = bindE (for_loop body xs s) (for_loop body ys)"
  by (induction xs arbitrary: s) (auto simp: bindE_def split: sum.splits)

lemma fold_assign:
  assumes "distinct idx" and "length idx = length vals" and "\<forall>i \<in> set idx. i < length c"
  shows "length (fold (\<lambda>(i, v) c. c[i := v]) (zip idx vals) c) = length c
       \<and> (\<forall>k<length idx. fold (\<lambda>(i, v) c. c[i := v]) (zip idx vals) c ! (idx ! k) = vals ! k)
       \<and> (\<forall>j. j \<notin> set idx \<longrightarrow> fold (\<lambda>(i, v) c. c[i := v]) (zip idx vals) c ! j = c ! j)"
  using assms
proof (induction idx arbitrary: vals c)
  case Nil
  then show ?case by simp
next
  case (Cons i idx)
  then obtain v vs where vals: "vals = v # vs" by (cases vals) auto
  let ?r = "fold (\<lambda>(i, v) c. c[i := v]) (zip idx vs) (c[i := v])"
  have ih: "length ?r = length (c[i := v])
       \<and> (\<forall>k<length idx. ?r ! (idx ! k) = vs ! k)
       \<and> (\<forall>j. j \<notin> set idx \<longrightarrow> ?r ! j = c[i := v] ! j)"
    using Cons.prems vals by (intro Cons.IH) auto
  have i: "i \<notin> set idx" "i < length c" using Cons.prems by auto
  have ri: "?r ! i = v" using ih i by simp
  have "\<forall>k<length (i # idx). ?r ! ((i # idx) ! k) = (v # vs) ! k"
    using ih ri by (auto simp: nth_Cons split: nat.splits)
  moreover have "\<forall>j. j \<notin> set (i # idx) \<longrightarrow> ?r ! j = c ! j"
    using ih by auto
  ultimately show ?case using ih vals by simp
qed

lemma assign_at_support:
  assumes lc: "length c = p" and zc: "\<forall>j<p. j \<notin> set supp \<longrightarrow> c ! j = 0"
    and ds: "distinct supp" and bs: "\<forall>j \<in> set supp. j < p"
    and lv: "length vals = length supp" and nz: "\<forall>v \<in> set vals. v \<noteq> 0"
  shows "\<exists>c'. assign_at c supp vals = Inr c' \<and> length c' = p
            \<and> (\<forall>j<p. j \<notin> set supp \<longrightarrow> c' ! j = 0)
            \<and> set (nonzero c') = set supp"
proof -
  define c' where "c' = fold (\<lambda>(i, v) c. c[i := v]) (zip supp vals) c"
  have f: "length c' = length c
       \<and> (\<forall>k<length supp. c' ! (supp ! k) = vals ! k)
       \<and> (\<forall>j. j \<notin> set supp \<longrightarrow> c' ! j = c ! j)"
    unfolding c'_def using ds lv bs lc by (intro fold_assign) auto
  then have f1: "length c' = p" and f2: "\<And>k. k < length supp \<Longrightarrow> c' ! (supp ! k) = vals ! k"
    and f3: "\<And>j. j \<notin> set supp \<Longrightarrow> c' ! j = c ! j"
    using lc by simp_all
  have a: "assign_at c supp vals = Inr c'"
    unfolding c'_def using bs lc lv by (simp add: assign_at_def list_all_iff)
  have out: "\<forall>j<p. j \<notin> set supp \<longrightarrow> c' ! j = 0"
    using f3 zc by simp
  have inn: "c' ! j \<noteq> 0" if "j \<in> set supp" for j
  proof -
    from that obtain k where k: "k < length supp" "supp ! k = j"
      unfolding in_set_conv_nth by blast
    have "c' ! j = vals ! k" using f2 [OF k(1)] k(2) by simp
    moreover have "vals ! k \<in> set vals" using k(1) lv by simp
    ultimately show ?thesis using nz by simp
  qed
  have "set (nonzero c') = {j. j < p \<and> c' ! j \<noteq> 0}"
    using f1 by (auto simp: nonzero_def)
  also have "\<dots> = set supp"
  proof (intro set_eqI iffI)
    fix j assume "j \<in> {j. j < p \<and> c' ! j \<noteq> 0}"
    then have "j < p" "c' ! j \<noteq> 0" by simp_all
    then show "j \<in> set supp" using out by blast
  next
    fix j assume "j \<in> set supp"
    then show "j \<in> {j. j < p \<and> c' ! j \<noteq> 0}" using inn bs by simp
  qed
  finally have nzs: "set (nonzero c') = set supp" .
  show ?thesis
    using a f1 out nzs by (intro exI [of _ c'] conjI)
qed

lemma int_mul_nonzero:
  assumes "length a = s" and "length b = s"
    and "\<forall>m \<in> set a. m \<noteq> 0" and "\<forall>g \<in> set b. g \<noteq> 0"
  shows "\<exists>vals. int_mul a b = Inr vals \<and> length vals = s \<and> (\<forall>v \<in> set vals. v \<noteq> 0)"
proof -
  have "\<forall>v \<in> set (map2 (\<lambda>u v. real_of_int (u * v)) a b). v \<noteq> 0"
  proof
    fix v assume "v \<in> set (map2 (\<lambda>u v. real_of_int (u * v)) a b)"
    then obtain m g where "(m, g) \<in> set (zip a b)" and v: "v = real_of_int (m * g)"
      by auto
    then have "m \<in> set a" "g \<in> set b"
      by (auto dest: set_zip_leftD set_zip_rightD)
    then have "m \<noteq> 0" "g \<noteq> 0" using assms(3,4) by auto
    then show "v \<noteq> 0" using v by simp
  qed
  then show ?thesis using assms(1,2) by (simp add: int_mul_def)
qed

lemma support_accuracy_range:
  assumes "0 < s" and "card (set truth) = s"
  shows "\<exists>a. support_accuracy est truth s = Inr a
            \<and> a = real (card (set est \<inter> set truth)) / real s \<and> 0 \<le> a \<and> a \<le> 1"
proof -
  have "card (set est \<inter> set truth) \<le> card (set truth)"
    by (intro card_mono) auto
  then have "real (card (set est \<inter> set truth)) / real s \<le> 1"
    using assms by simp
  then show ?thesis using assms(1) by (simp add: support_accuracy_def)
qed

lemma run_task_rows:
  assumes spos: "0 < s"
    and sup: "length supp = s" "distinct supp" "\<forall>j \<in> set supp. j < p"
    and mag: "length (rng_magnitude E i task) = s" "\<forall>m \<in> set (rng_magnitude E i task). m \<noteq> 0"
    and sgn: "length (rng_sign E i task) = s" "\<forall>g \<in> set (rng_sign E i task). g \<noteq> 0"
    and coefret: "\<And>c. data_coef (make_glm_data E i task n p s (family_of task) c) = c"
    and lc: "length c = p" and zc: "\<forall>j<p. j \<notin> set supp \<longrightarrow> c ! j = 0"
  shows "\<exists>c' ra rs.
           run_task E n p s i supp task (c, res, sites)
             = Inr (c', res @ [ra, rs], sites @ [objective_site p s task])
         \<and> length c' = p \<and> (\<forall>j<p. j \<notin> set supp \<longrightarrow> c' ! j = 0)
         \<and> recorded E n p s i task supp ra rs"
proof -
  obtain vals where v: "int_mul (rng_magnitude E i task) (rng_sign E i task) = Inr vals"
    "length vals = s" "\<forall>v \<in> set vals. v \<noteq> 0"
    using int_mul_nonzero [OF mag(1) sgn(1) mag(2) sgn(2)] by blast
  have lv: "length vals = length supp" using v(2) sup(1) by simp
  obtain c' where c': "assign_at c supp vals = Inr c'" "length c' = p"
    "\<forall>j<p. j \<notin> set supp \<longrightarrow> c' ! j = 0" "set (nonzero c') = set supp"
    using assign_at_support [OF lc zc sup(2) sup(3) lv v(3)] by blast
  define data where "data = make_glm_data E i task n p s (family_of task) c'"
  have dc: "data_coef data = c'" unfolding data_def by (rule coefret)
  have cs: "card (set supp) = s" using sup(1,2) by (simp add: distinct_card)
  have cn: "card (set (nonzero (data_coef data))) = s" using dc c'(4) cs by simp
  define est_a where "est_a = nonzero (abess_fit E i task s (data_x data) (data_y data))"
  define est_s where
    "est_s = nonzero (scope_solve E i task p s (objective task (data_x data) (data_y data)))"
  obtain aa where aa: "support_accuracy est_a supp s = Inr aa"
    "aa = real (card (set est_a \<inter> set supp)) / real s" "0 \<le> aa" "aa \<le> 1"
    using support_accuracy_range [OF spos cs, of est_a] by blast
  obtain as where as: "support_accuracy est_s (nonzero (data_coef data)) s = Inr as"
    "as = real (card (set est_s \<inter> set (nonzero (data_coef data)))) / real s" "0 \<le> as" "as \<le> 1"
    using support_accuracy_range [OF spos cn, of est_s] by blast
  define ra where "ra = \<lparr>row_task = task, row_model = ''abess'', accuracy = aa,
                          time_taken = fst (clock E i task)\<rparr>"
  define rs where "rs = \<lparr>row_task = task, row_model = ''skscope'', accuracy = as,
                          time_taken = snd (clock E i task)\<rparr>"
  have run: "run_task E n p s i supp task (c, res, sites)
             = Inr (c', res @ [ra, rs], sites @ [objective_site p s task])"
    unfolding run_task.simps ra_def rs_def
    using aa(1) as(1)
    by (simp only: v(1) c'(1) bindE_Inr Let_def data_def [symmetric] est_a_def [symmetric]
          est_s_def [symmetric]) simp
  have sc: "recorded E n p s i task supp ra rs"
    unfolding recorded_def
  proof (intro exI conjI)
    show "data = make_glm_data E i task n p s (family_of task) c'" by (rule data_def)
    show "ra = \<lparr>row_task = task, row_model = ''abess'',
                     accuracy = real (card (set (nonzero (abess_fit E i task s (data_x data) (data_y data)))
                                          \<inter> set supp)) / real s,
                     time_taken = fst (clock E i task)\<rparr>"
      unfolding ra_def aa(2) est_a_def by (rule refl)
    show "rs = \<lparr>row_task = task, row_model = ''skscope'',
                     accuracy = real (card (set (nonzero (scope_solve E i task p s
                                                    (objective task (data_x data) (data_y data))))
                                          \<inter> set (nonzero (data_coef data)))) / real s,
                     time_taken = snd (clock E i task)\<rparr>"
      unfolding rs_def as(2) est_s_def by (rule refl)
    show "set (nonzero (data_coef data)) = set supp" using dc c'(4) by simp
    show "card (set supp) = s" by (rule cs)
    show "0 \<le> accuracy ra" "accuracy ra \<le> 1" using aa(3,4) by (simp_all add: ra_def)
    show "0 \<le> accuracy rs" "accuracy rs \<le> 1" using as(3,4) by (simp_all add: rs_def)
  qed
  show ?thesis
    by (rule exI [of _ c'], rule exI [of _ ra], rule exI [of _ rs], intro conjI)
       (rule run, rule c'(2), rule c'(3), rule sc)
qed

lemma run_rep_rows:
  assumes spos: "0 < s" and sp: "s \<le> p"
    and sup: "length (rng_support E i) = s" "distinct (rng_support E i)"
             "\<forall>j \<in> set (rng_support E i). j < p"
    and mag: "\<And>task. length (rng_magnitude E i task) = s"
             "\<And>task. \<forall>m \<in> set (rng_magnitude E i task). m \<noteq> 0"
    and sgn: "\<And>task. length (rng_sign E i task) = s"
             "\<And>task. \<forall>g \<in> set (rng_sign E i task). g \<noteq> 0"
    and coefret: "\<And>task c. data_coef (make_glm_data E i task n p s (family_of task) c) = c"
  shows "\<exists>rows.
           run_rep E n p s i (res, sites)
             = Inr (res @ rows,
                    sites @ [objective_site p s Linear, objective_site p s NonNeg,
                             objective_site p s Logistic])
         \<and> length rows = 6
         \<and> recorded E n p s i Linear (rng_support E i) (rows ! 0) (rows ! 1)
         \<and> recorded E n p s i NonNeg (rng_support E i) (rows ! 2) (rows ! 3)
         \<and> recorded E n p s i Logistic (rng_support E i) (rows ! 4) (rows ! 5)"
proof -
  let ?supp = "rng_support E i"
  let ?c0 = "replicate p (0::real)"
  have c0: "length ?c0 = p" "\<forall>j<p. j \<notin> set ?supp \<longrightarrow> ?c0 ! j = 0" by simp_all
  obtain c1 r0 r1 where t1:
    "run_task E n p s i ?supp Linear (?c0, res, sites)
       = Inr (c1, res @ [r0, r1], sites @ [objective_site p s Linear])"
    "length c1 = p" "\<forall>j<p. j \<notin> set ?supp \<longrightarrow> c1 ! j = 0"
    "recorded E n p s i Linear ?supp r0 r1"
    using run_task_rows [OF spos sup mag(1) mag(2) sgn(1) sgn(2) coefret c0, of Linear res sites]
    by blast
  obtain c2 r2 r3 where t2:
    "run_task E n p s i ?supp NonNeg (c1, res @ [r0, r1], sites @ [objective_site p s Linear])
       = Inr (c2, (res @ [r0, r1]) @ [r2, r3],
              (sites @ [objective_site p s Linear]) @ [objective_site p s NonNeg])"
    "length c2 = p" "\<forall>j<p. j \<notin> set ?supp \<longrightarrow> c2 ! j = 0"
    "recorded E n p s i NonNeg ?supp r2 r3"
    using run_task_rows [OF spos sup mag(1) mag(2) sgn(1) sgn(2) coefret t1(2) t1(3),
            of NonNeg "res @ [r0, r1]" "sites @ [objective_site p s Linear]"]
    by blast
  obtain c3 r4 r5 where t3:
    "run_task E n p s i ?supp Logistic
       (c2, (res @ [r0, r1]) @ [r2, r3],
        (sites @ [objective_site p s Linear]) @ [objective_site p s NonNeg])
       = Inr (c3, ((res @ [r0, r1]) @ [r2, r3]) @ [r4, r5],
              ((sites @ [objective_site p s Linear]) @ [objective_site p s NonNeg])
                @ [objective_site p s Logistic])"
    "recorded E n p s i Logistic ?supp r4 r5"
    using run_task_rows [OF spos sup mag(1) mag(2) sgn(1) sgn(2) coefret t2(2) t2(3),
            of Logistic "(res @ [r0, r1]) @ [r2, r3]"
               "(sites @ [objective_site p s Linear]) @ [objective_site p s NonNeg]"]
    by blast
  let ?rows = "[r0, r1, r2, r3, r4, r5]"
  have nsp: "\<not> p < s" using sp by simp
  have run: "run_rep E n p s i (res, sites)
             = Inr (res @ ?rows,
                    sites @ [objective_site p s Linear, objective_site p s NonNeg,
                             objective_site p s Logistic])"
    unfolding run_rep_def
    by (simp only: nsp if_False for_loop.simps fst_conv snd_conv Let_def t1(1) t2(1) t3(1)
          bindE_Inr prod.case) simp
  show ?thesis
  proof (rule exI [of _ ?rows], intro conjI)
    show "run_rep E n p s i (res, sites)
             = Inr (res @ ?rows,
                    sites @ [objective_site p s Linear, objective_site p s NonNeg,
                             objective_site p s Logistic])"
      by (rule run)
    show "length ?rows = 6" by simp
    show "recorded E n p s i Linear (rng_support E i) (?rows ! 0) (?rows ! 1)"
      using t1(4) by simp
    show "recorded E n p s i NonNeg (rng_support E i) (?rows ! 2) (?rows ! 3)"
      using t2(4) by simp
    show "recorded E n p s i Logistic (rng_support E i) (?rows ! 4) (?rows ! 5)"
      using t3(2) by simp
  qed
qed

lemma test_time_rows:
  assumes spos: "0 < s" and sp: "s \<le> p"
    and sup: "\<And>i. i < rep \<Longrightarrow> length (rng_support E i) = s \<and> distinct (rng_support E i)
                \<and> (\<forall>j \<in> set (rng_support E i). j < p)"
    and mag: "\<And>i task. i < rep \<Longrightarrow> length (rng_magnitude E i task) = s
                \<and> (\<forall>m \<in> set (rng_magnitude E i task). m \<noteq> 0)"
    and sgn: "\<And>i task. i < rep \<Longrightarrow> length (rng_sign E i task) = s
                \<and> (\<forall>g \<in> set (rng_sign E i task). g \<noteq> 0)"
    and coefret: "\<And>i task c. i < rep \<Longrightarrow>
                    data_coef (make_glm_data E i task n p s (family_of task) c) = c"
    and k: "k \<le> rep"
  shows "\<exists>res sites.
           for_loop (run_rep E n p s) [0..<k] ([], []) = Inr (res, sites)
         \<and> length res = 6 * k
         \<and> sites = concat (replicate k [objective_site p s Linear, objective_site p s NonNeg,
                                          objective_site p s Logistic])
         \<and> (\<forall>i<k. recorded E n p s i Linear (rng_support E i) (res ! (6 * i)) (res ! (6 * i + 1))
                 \<and> recorded E n p s i NonNeg (rng_support E i)
                      (res ! (6 * i + 2)) (res ! (6 * i + 3))
                 \<and> recorded E n p s i Logistic (rng_support E i)
                      (res ! (6 * i + 4)) (res ! (6 * i + 5)))"
  using k
proof (induction k)
  case 0
  then show ?case by simp
next
  case (Suc k)
  then have kr: "k < rep" by simp
  from Suc obtain res sites where ih:
    "for_loop (run_rep E n p s) [0..<k] ([], []) = Inr (res, sites)"
    "length res = 6 * k"
    "sites = concat (replicate k [objective_site p s Linear, objective_site p s NonNeg,
                                  objective_site p s Logistic])"
    "\<forall>i<k. recorded E n p s i Linear (rng_support E i) (res ! (6 * i)) (res ! (6 * i + 1))
                 \<and> recorded E n p s i NonNeg (rng_support E i)
                      (res ! (6 * i + 2)) (res ! (6 * i + 3))
                 \<and> recorded E n p s i Logistic (rng_support E i)
                      (res ! (6 * i + 4)) (res ! (6 * i + 5))"
    by auto
  obtain rows where r:
    "run_rep E n p s k (res, sites)
       = Inr (res @ rows,
              sites @ [objective_site p s Linear, objective_site p s NonNeg,
                       objective_site p s Logistic])"
    "length rows = 6"
    "recorded E n p s k Linear (rng_support E k) (rows ! 0) (rows ! 1)"
    "recorded E n p s k NonNeg (rng_support E k) (rows ! 2) (rows ! 3)"
    "recorded E n p s k Logistic (rng_support E k) (rows ! 4) (rows ! 5)"
    using run_rep_rows [of s p E k n res sites] spos sp sup [OF kr] mag [OF kr] sgn [OF kr]
      coefret [OF kr]
    by blast
  let ?res = "res @ rows"
  let ?sites = "sites @ [objective_site p s Linear, objective_site p s NonNeg,
                         objective_site p s Logistic]"
  have run: "for_loop (run_rep E n p s) [0..<Suc k] ([], []) = Inr (?res, ?sites)"
    by (simp add: for_loop_append ih(1) r(1))
  have old: "?res ! j = res ! j" if "j < 6 * k" for j
    using that ih(2) by (simp add: nth_append)
  have new: "?res ! (6 * k + j) = rows ! j" for j
    using ih(2) by (simp add: nth_append)
  have rec: "recorded E n p s i Linear (rng_support E i) (?res ! (6 * i)) (?res ! (6 * i + 1))
                 \<and> recorded E n p s i NonNeg (rng_support E i)
                      (?res ! (6 * i + 2)) (?res ! (6 * i + 3))
                 \<and> recorded E n p s i Logistic (rng_support E i)
                      (?res ! (6 * i + 4)) (?res ! (6 * i + 5))" if "i < Suc k" for i
  proof (cases "i < k")
    case True
    then have "6 * i + 5 < 6 * k" by simp
    then have "6 * i < 6 * k" "6 * i + 1 < 6 * k" "6 * i + 2 < 6 * k" "6 * i + 3 < 6 * k"
      "6 * i + 4 < 6 * k" "6 * i + 5 < 6 * k" by simp_all
    then show ?thesis using ih(4) True by (simp only: old)
  next
    case False
    then have "i = k" using that by simp
    then show ?thesis
      using r(3,4,5) new [of 0] new [of 1] new [of 2] new [of 3] new [of 4] new [of 5]
      by simp
  qed
  show ?case
  proof (rule exI [of _ ?res], rule exI [of _ ?sites], intro conjI)
    show "for_loop (run_rep E n p s) [0..<Suc k] ([], []) = Inr (?res, ?sites)" by (rule run)
    show "length ?res = 6 * Suc k" using ih(2) r(2) by simp
    show "?sites = concat (replicate (Suc k) [objective_site p s Linear,
                      objective_site p s NonNeg, objective_site p s Logistic])"
      unfolding ih(3) by (simp only: concat_replicate_Suc_end append_assoc)
    show "\<forall>i<Suc k. recorded E n p s i Linear (rng_support E i) (?res ! (6 * i)) (?res ! (6 * i + 1))
                 \<and> recorded E n p s i NonNeg (rng_support E i)
                      (?res ! (6 * i + 2)) (?res ! (6 * i + 3))
                 \<and> recorded E n p s i Logistic (rng_support E i)
                      (?res ! (6 * i + 4)) (?res ! (6 * i + 5))"
      using rec by blast
  qed
qed

lemma test_time_valid:
  assumes "0 < s" and "s \<le> p"
    and "\<forall>i<rep. length (rng_support E i) = s \<and> distinct (rng_support E i)
                \<and> (\<forall>j \<in> set (rng_support E i). j < p)"
    and "\<forall>i<rep. \<forall>task. length (rng_magnitude E i task) = s
                \<and> (\<forall>m \<in> set (rng_magnitude E i task). 1 \<le> m \<and> m \<le> 3)"
    and "\<forall>i<rep. \<forall>task. length (rng_sign E i task) = s
                \<and> (\<forall>g \<in> set (rng_sign E i task). g = 1 \<or> g = - 1)"
    and "\<forall>i<rep. \<forall>task c. data_coef (make_glm_data E i task n p s (family_of task) c) = c"
  shows "\<exists>res sites.
           test_time E n p s rep = Inr (res, sites)
         \<and> length res = 6 * rep
         \<and> sites = concat (replicate rep [objective_site p s Linear, objective_site p s NonNeg,
                                            objective_site p s Logistic])
         \<and> (\<forall>i<rep. recorded E n p s i Linear (rng_support E i) (res ! (6 * i)) (res ! (6 * i + 1))
                 \<and> recorded E n p s i NonNeg (rng_support E i)
                      (res ! (6 * i + 2)) (res ! (6 * i + 3))
                 \<and> recorded E n p s i Logistic (rng_support E i)
                      (res ! (6 * i + 4)) (res ! (6 * i + 5)))"
  unfolding test_time_def
proof (rule test_time_rows [OF assms(1,2), where rep = rep])
  fix i assume "i < rep"
  then show "length (rng_support E i) = s \<and> distinct (rng_support E i)
                \<and> (\<forall>j \<in> set (rng_support E i). j < p)"
    using assms(3) by blast
next
  fix i task assume i: "i < rep"
  have "m \<noteq> 0" if "1 \<le> m \<and> m \<le> 3" for m :: int using that by simp
  then show "length (rng_magnitude E i task) = s
                \<and> (\<forall>m \<in> set (rng_magnitude E i task). m \<noteq> 0)"
    using assms(4) i by blast
next
  fix i task assume i: "i < rep"
  have "g \<noteq> 0" if "g = 1 \<or> g = - 1" for g :: int using that by auto
  then show "length (rng_sign E i task) = s
                \<and> (\<forall>g \<in> set (rng_sign E i task). g \<noteq> 0)"
    using assms(5) i by blast
next
  fix i task c assume "i < rep"
  then show "data_coef (make_glm_data E i task n p s (family_of task) c) = c"
    using assms(6) by blast
next
  show "rep \<le> rep" by simp
qed

lemma recorded_rows:
  assumes "recorded E n p s i task supp ra rs"
  shows "\<exists>coef data.
              data = make_glm_data E i task n p s (family_of task) coef
            \<and> ra = \<lparr>row_task = task, row_model = ''abess'',
                     accuracy = real (card (set (nonzero (abess_fit E i task s (data_x data) (data_y data)))
                                          \<inter> set supp)) / real s,
                     time_taken = fst (clock E i task)\<rparr>
            \<and> rs = \<lparr>row_task = task, row_model = ''skscope'',
                     accuracy = real (card (set (nonzero (scope_solve E i task p s
                                                    (objective task (data_x data) (data_y data))))
                                          \<inter> set (nonzero (data_coef data)))) / real s,
                     time_taken = snd (clock E i task)\<rparr>
            \<and> set (nonzero (data_coef data)) = set supp
            \<and> card (set supp) = s"
  using assms unfolding recorded_def by (elim exE conjE) (intro exI conjI, assumption+)

lemma recorded_labels:
  assumes "recorded E n p s i task supp ra rs"
  shows "row_task ra = task \<and> row_model ra = ''abess''
       \<and> row_task rs = task \<and> row_model rs = ''skscope''
       \<and> 0 \<le> accuracy ra \<and> accuracy ra \<le> 1 \<and> 0 \<le> accuracy rs \<and> accuracy rs \<le> 1"
  using assms unfolding recorded_def by (elim exE conjE) simp

lemma index_by_six:
  assumes "j < 6 * (rep::nat)"
  obtains i m where "i < rep" and "m < 6" and "j = 6 * i + m"
proof
  show "j div 6 < rep" using assms by (simp add: less_mult_imp_div_less mult.commute)
  show "j mod 6 < 6" by simp
  show "j = 6 * (j div 6) + j mod 6" by simp
qed


lemma nonzero_example: "nonzero [2, 0] = [0]"
  by (simp add: nonzero_def)

lemma replicate_example: "replicate 2 (0::real) = [0, 0]"
  by (simp add: numeral_2_eq_2)

lemma test_time_example:
  "test_time example_env 1 2 1 1
   = Inr ([\<lparr>row_task = Linear, row_model = ''abess'', accuracy = 1, time_taken = 0\<rparr>,
           \<lparr>row_task = Linear, row_model = ''skscope'', accuracy = 1, time_taken = 0\<rparr>,
           \<lparr>row_task = NonNeg, row_model = ''abess'', accuracy = 1, time_taken = 0\<rparr>,
           \<lparr>row_task = NonNeg, row_model = ''skscope'', accuracy = 1, time_taken = 0\<rparr>,
           \<lparr>row_task = Logistic, row_model = ''abess'', accuracy = 1, time_taken = 0\<rparr>,
           \<lparr>row_task = Logistic, row_model = ''skscope'', accuracy = 1, time_taken = 0\<rparr>],
          [objective_site 2 1 Linear, objective_site 2 1 NonNeg, objective_site 2 1 Logistic])"
  by (simp add: example_env_def test_time_def run_rep_def int_mul_def assign_at_def
        support_accuracy_def replicate_example nonzero_example Let_def)

subsection \<open>The parameter-space dimension of each loss\<close>

text \<open>
  A loss returns a value only on parameter vectors of one length: the number of columns
  of the design matrix, or \<open>p * m\<close> where it reshapes its argument. This is the
  \<open>loss_dimension\<close> of a use site.
\<close>

lemma matvec_Inr_shape:
  "matvec X v = Inr r \<Longrightarrow> \<forall>row \<in> set X. length row = length v"
  by (auto simp: matvec_def list_all_iff split: if_splits)

lemma bindE_Inr_iff:
  "bindE r f = Inr v \<longleftrightarrow> (\<exists>a. r = Inr a \<and> f a = Inr v)"
  by (cases r) (simp_all add: bindE_def)

lemma ols_loss_dimension:
  "ols_loss X y params = Inr v \<Longrightarrow> \<forall>row \<in> set X. length row = length params"
  by (cases "matvec X params") (auto simp: ols_loss_def dest: matvec_Inr_shape)

lemma objective_dimension:
  "objective task X y params = Inr v \<Longrightarrow> \<forall>row \<in> set X. length row = length params"
  by (cases task; cases "matvec X params") (auto dest: matvec_Inr_shape)

lemma multinomial_regression_loss_dimension:
  "multinomial_regression_loss p m X y params = Inr v \<Longrightarrow> length params = p * m"
  unfolding multinomial_regression_loss_def bindE_Inr_iff
  by (auto simp: reshape_def split: if_splits)

lemma competing_risk_objective_dimension:
  "competing_risk_objective n x y delta params = Inr v \<Longrightarrow>
   \<forall>row \<in> set x. length row = length params"
  unfolding competing_risk_objective_def bindE_Inr_iff
  by (auto dest: matvec_Inr_shape)

lemma multivariate_failure_objective_dimension:
  "multivariate_failure_objective n x y delta params = Inr v \<Longrightarrow>
   \<forall>row \<in> set x. length row = length params"
  unfolding multivariate_failure_objective_def bindE_Inr_iff
  by (auto dest: matvec_Inr_shape)

section \<open>Claims\<close>

text \<open>
  C3. For every parameter vector of length \<open>p\<close>, \<open>ols_loss\<close> of the linear-regression
  notebook and the benchmark's \<open>objective\<close> for the tasks Linear and Non-Neg return the
  mean-squared error \<open>(1/n) * (\<Sum>i. (y_i - (X @ params)_i)\<^sup>2)\<close> of the dataset
  \<open>(X, y)\<close> in scope, \<open>X\<close> an \<open>n\<close> by \<open>p\<close> matrix and \<open>y\<close> of length \<open>n\<close>, in exact real
  arithmetic.
\<close>

theorem C3_mse_losses:
  assumes "length X = n" and "length y = n" and "0 < n"
    and "\<forall>row \<in> set X. length row = p" and "length params = p"
  shows "ols_loss X y params
           = Inr ((1 / real n) * (\<Sum>i<n. (y ! i - (\<Sum>j<p. X ! i ! j * params ! j)) ^ 2))
       \<and> objective Linear X y params
           = Inr ((1 / real n) * (\<Sum>i<n. (y ! i - (\<Sum>j<p. X ! i ! j * params ! j)) ^ 2))
       \<and> objective NonNeg X y params
           = Inr ((1 / real n) * (\<Sum>i<n. (y ! i - (\<Sum>j<p. X ! i ! j * params ! j)) ^ 2))"
proof -
  have sh: "\<forall>row \<in> set X. length row = length params"
    using assms(4,5) by simp
  note v = mse_value [OF assms(1) assms(2) assms(3) sh, unfolded assms(5)]
  show ?thesis
    unfolding ols_loss_def objective.simps using v by simp
qed

theorem C3_mse_losses_witness:
  "ols_loss [[1, 2], [3, 4]] [1, 2] [1, 0] = Inr (1 / 2)
   \<and> objective Linear [[1, 2], [3, 4]] [1, 2] [1, 0] = Inr (1 / 2)
   \<and> objective NonNeg [[1, 2], [3, 4]] [1, 2] [1, 0] = Inr (1 / 2)"
  using C3_mse_losses [of "[[1, 2], [3, 4]]" 2 "[1, 2]" 2 "[1, 0]"]
  by (simp add: lessThan_Suc numeral_2_eq_2)

text \<open>
  C4. For every \<open>params\<close> of length \<open>p * m\<close>, with \<open>B\<close> the row-major reshaping of \<open>params\<close>
  to a \<open>p\<close> by \<open>m\<close> matrix (\<open>B_jk = params[j * m + k]\<close>), \<open>multinomial_regression_loss\<close>
  returns the negative log-likelihood of the softmax model averaged over the \<open>n\<close>
  observations: \<open>- (1/n) * (\<Sum>i k. y_ik * log (exp ((X B)_ik) / (\<Sum>j. exp ((X B)_ij))))\<close>,
  in exact real arithmetic.
\<close>

theorem C4_multinomial_nll:
  assumes "length X = n" and "0 < n"
    and "\<forall>row \<in> set X. length row = p"
    and "length y = n" and "\<forall>row \<in> set y. length row = m"
    and "length params = p * m"
  shows "multinomial_regression_loss p m X y params
         = Inr (- ((1 / real n) *
               (\<Sum>i<n. \<Sum>k<m. y ! i ! k *
                  ln (exp (\<Sum>j<p. X ! i ! j * params ! (j * m + k)) /
                      (\<Sum>l<m. exp (\<Sum>j<p. X ! i ! j * params ! (j * m + l)))))))"
  using multinomial_value [OF assms] .

theorem C4_multinomial_nll_witness:
  "multinomial_regression_loss 1 2 [[1]] [[1, 0]] [0, 0] = Inr (- ln (1 / 2))"
  using C4_multinomial_nll [of "[[1]]" 1 1 "[[1, 0]]" 2 "[0, 0]"]
  by (simp add: lessThan_Suc numeral_2_eq_2)

text \<open>
  C5. The survival objectives are the negative log partial likelihoods scaled by \<open>1/n\<close>.
  For a dataset of \<open>n\<close> observations whose indicators \<open>delta\<close> are 0 or 1, and every
  \<open>params\<close>: \<open>competing_risk_objective\<close> returns
  \<open>(1/n) * (\<Sum>i with delta_i0 = 1 and delta_i1 = 1. log (\<Sum>j \<in> R_i. exp ((x @ params)_j)) - (x @ params)_i)\<close>
  with \<open>R_i = {j. y_j0 \<ge> y_i0 \<or> (delta_j1 = 0 \<and> delta_j0 = 1 \<and> y_j0 \<le> y_i0 \<and> y_j1 \<ge> y_i0)}\<close>,
  and \<open>multivariate_failure_objective\<close> returns
  \<open>(1/n) * (\<Sum>k < 2. \<Sum>i with delta_ik = 1. log (\<Sum>j with y_jk \<ge> y_ik. exp ((x @ params)_j)) - (x @ params)_i)\<close>,
  in exact real arithmetic.
\<close>

theorem C5_partial_likelihoods:
  assumes "length x = n" and "length y = n" and "length delta = n" and "0 < n"
    and "\<forall>row \<in> set x. length row = length params"
    and "\<forall>r \<in> set y. length r = 2" and "\<forall>r \<in> set delta. length r = 2"
    and "\<forall>r \<in> set delta. \<forall>v \<in> set r. v = 0 \<or> v = 1"
  shows "competing_risk_objective n x y delta params
         = Inr ((1 / real n) *
             (\<Sum>i | i < n \<and> delta ! i ! 0 = 1 \<and> delta ! i ! 1 = 1.
                ln (\<Sum>j | j < n \<and> (y ! j ! 0 \<ge> y ! i ! 0
                        \<or> (delta ! j ! 1 = 0 \<and> delta ! j ! 0 = 1
                            \<and> y ! j ! 0 \<le> y ! i ! 0 \<and> y ! j ! 1 \<ge> y ! i ! 0)).
                      exp (\<Sum>l<length params. x ! j ! l * params ! l))
                - (\<Sum>l<length params. x ! i ! l * params ! l)))
       \<and> multivariate_failure_objective n x y delta params
         = Inr ((1 / real n) *
             (\<Sum>k<2. \<Sum>i | i < n \<and> delta ! i ! k = 1.
                ln (\<Sum>j | j < n \<and> y ! j ! k \<ge> y ! i ! k.
                      exp (\<Sum>l<length params. x ! j ! l * params ! l))
                - (\<Sum>l<length params. x ! i ! l * params ! l)))"
  by (intro conjI) (rule competing_risk_value [OF assms], rule multivariate_failure_value [OF assms])

theorem C5_partial_likelihoods_witness:
  "competing_risk_objective 2 [[1], [2]] [[1, 3], [2, 3]] [[1, 1], [0, 1]] [0]
     = Inr (ln 2 / 2)
   \<and> multivariate_failure_objective 2 [[1], [2]] [[1, 3], [2, 3]] [[1, 1], [0, 1]] [0]
     = Inr (3 * ln 2 / 2)"
proof -
  have s2: "(\<Sum>k<2. g k) = g 0 + g 1" for g :: "nat \<Rightarrow> real"
    by (simp add: lessThan_Suc numeral_2_eq_2)
  show ?thesis
    using C5_partial_likelihoods
            [of "[[1], [2]]" 2 "[[1, 3], [2, 3]]" "[[1, 1], [0, 1]]" "[0]"]
    by (simp add: sum_less_2 card_less_2 s2)
qed





text \<open>
  C6. In \<open>test_time\<close>, for every repetition and each of the tasks Linear, Non-Neg and
  Logistic, \<open>abess\<close> and \<open>skscope\<close> are fit on the data of one call of \<open>make_glm_data\<close>, and
  the accuracy recorded for each method is the number of indices in both the estimated
  support and the true support, divided by \<open>s\<close>; \<open>abess\<close> is scored against
  \<open>true_support_set\<close> and \<open>skscope\<close> against the non-zero indices of \<open>data.coef_\<close>, which are
  the same set of size \<open>s\<close>. The draws are in the ranges of the generator, and
  \<open>make_glm_data\<close> returns the coefficients it was given as \<open>coef_\<close>.
\<close>

theorem C6_same_data_and_support:
  assumes "0 < s" and "s \<le> p"
    and "\<forall>i<rep. length (rng_support E i) = s \<and> distinct (rng_support E i)
                \<and> (\<forall>j \<in> set (rng_support E i). j < p)"
    and "\<forall>i<rep. \<forall>task. length (rng_magnitude E i task) = s
                \<and> (\<forall>m \<in> set (rng_magnitude E i task). 1 \<le> m \<and> m \<le> 3)"
    and "\<forall>i<rep. \<forall>task. length (rng_sign E i task) = s
                \<and> (\<forall>g \<in> set (rng_sign E i task). g = 1 \<or> g = - 1)"
    and "\<forall>i<rep. \<forall>task c. data_coef (make_glm_data E i task n p s (family_of task) c) = c"
  shows "\<exists>res sites.
           test_time E n p s rep = Inr (res, sites)
         \<and> (\<forall>i<rep.
               (\<exists>coef data.
              data = make_glm_data E i Linear n p s (family_of Linear) coef
            \<and> res ! (6 * i) = \<lparr>row_task = Linear, row_model = ''abess'',
                     accuracy = real (card (set (nonzero (abess_fit E i Linear s (data_x data) (data_y data)))
                                          \<inter> set (rng_support E i))) / real s,
                     time_taken = fst (clock E i Linear)\<rparr>
            \<and> res ! (6 * i + 1) = \<lparr>row_task = Linear, row_model = ''skscope'',
                     accuracy = real (card (set (nonzero (scope_solve E i Linear p s
                                                    (objective Linear (data_x data) (data_y data))))
                                          \<inter> set (nonzero (data_coef data)))) / real s,
                     time_taken = snd (clock E i Linear)\<rparr>
            \<and> set (nonzero (data_coef data)) = set (rng_support E i)
            \<and> card (set (rng_support E i)) = s)
             \<and> (\<exists>coef data.
              data = make_glm_data E i NonNeg n p s (family_of NonNeg) coef
            \<and> res ! (6 * i + 2) = \<lparr>row_task = NonNeg, row_model = ''abess'',
                     accuracy = real (card (set (nonzero (abess_fit E i NonNeg s (data_x data) (data_y data)))
                                          \<inter> set (rng_support E i))) / real s,
                     time_taken = fst (clock E i NonNeg)\<rparr>
            \<and> res ! (6 * i + 3) = \<lparr>row_task = NonNeg, row_model = ''skscope'',
                     accuracy = real (card (set (nonzero (scope_solve E i NonNeg p s
                                                    (objective NonNeg (data_x data) (data_y data))))
                                          \<inter> set (nonzero (data_coef data)))) / real s,
                     time_taken = snd (clock E i NonNeg)\<rparr>
            \<and> set (nonzero (data_coef data)) = set (rng_support E i)
            \<and> card (set (rng_support E i)) = s)
             \<and> (\<exists>coef data.
              data = make_glm_data E i Logistic n p s (family_of Logistic) coef
            \<and> res ! (6 * i + 4) = \<lparr>row_task = Logistic, row_model = ''abess'',
                     accuracy = real (card (set (nonzero (abess_fit E i Logistic s (data_x data) (data_y data)))
                                          \<inter> set (rng_support E i))) / real s,
                     time_taken = fst (clock E i Logistic)\<rparr>
            \<and> res ! (6 * i + 5) = \<lparr>row_task = Logistic, row_model = ''skscope'',
                     accuracy = real (card (set (nonzero (scope_solve E i Logistic p s
                                                    (objective Logistic (data_x data) (data_y data))))
                                          \<inter> set (nonzero (data_coef data)))) / real s,
                     time_taken = snd (clock E i Logistic)\<rparr>
            \<and> set (nonzero (data_coef data)) = set (rng_support E i)
            \<and> card (set (rng_support E i)) = s))"
proof -
  obtain res sites where t: "test_time E n p s rep = Inr (res, sites)"
    and rec: "\<forall>i<rep. recorded E n p s i Linear (rng_support E i) (res ! (6 * i)) (res ! (6 * i + 1))
                 \<and> recorded E n p s i NonNeg (rng_support E i)
                      (res ! (6 * i + 2)) (res ! (6 * i + 3))
                 \<and> recorded E n p s i Logistic (rng_support E i)
                      (res ! (6 * i + 4)) (res ! (6 * i + 5))"
    using test_time_valid [OF assms] by blast
  have "\<forall>i<rep.
               (\<exists>coef data.
              data = make_glm_data E i Linear n p s (family_of Linear) coef
            \<and> res ! (6 * i) = \<lparr>row_task = Linear, row_model = ''abess'',
                     accuracy = real (card (set (nonzero (abess_fit E i Linear s (data_x data) (data_y data)))
                                          \<inter> set (rng_support E i))) / real s,
                     time_taken = fst (clock E i Linear)\<rparr>
            \<and> res ! (6 * i + 1) = \<lparr>row_task = Linear, row_model = ''skscope'',
                     accuracy = real (card (set (nonzero (scope_solve E i Linear p s
                                                    (objective Linear (data_x data) (data_y data))))
                                          \<inter> set (nonzero (data_coef data)))) / real s,
                     time_taken = snd (clock E i Linear)\<rparr>
            \<and> set (nonzero (data_coef data)) = set (rng_support E i)
            \<and> card (set (rng_support E i)) = s)
             \<and> (\<exists>coef data.
              data = make_glm_data E i NonNeg n p s (family_of NonNeg) coef
            \<and> res ! (6 * i + 2) = \<lparr>row_task = NonNeg, row_model = ''abess'',
                     accuracy = real (card (set (nonzero (abess_fit E i NonNeg s (data_x data) (data_y data)))
                                          \<inter> set (rng_support E i))) / real s,
                     time_taken = fst (clock E i NonNeg)\<rparr>
            \<and> res ! (6 * i + 3) = \<lparr>row_task = NonNeg, row_model = ''skscope'',
                     accuracy = real (card (set (nonzero (scope_solve E i NonNeg p s
                                                    (objective NonNeg (data_x data) (data_y data))))
                                          \<inter> set (nonzero (data_coef data)))) / real s,
                     time_taken = snd (clock E i NonNeg)\<rparr>
            \<and> set (nonzero (data_coef data)) = set (rng_support E i)
            \<and> card (set (rng_support E i)) = s)
             \<and> (\<exists>coef data.
              data = make_glm_data E i Logistic n p s (family_of Logistic) coef
            \<and> res ! (6 * i + 4) = \<lparr>row_task = Logistic, row_model = ''abess'',
                     accuracy = real (card (set (nonzero (abess_fit E i Logistic s (data_x data) (data_y data)))
                                          \<inter> set (rng_support E i))) / real s,
                     time_taken = fst (clock E i Logistic)\<rparr>
            \<and> res ! (6 * i + 5) = \<lparr>row_task = Logistic, row_model = ''skscope'',
                     accuracy = real (card (set (nonzero (scope_solve E i Logistic p s
                                                    (objective Logistic (data_x data) (data_y data))))
                                          \<inter> set (nonzero (data_coef data)))) / real s,
                     time_taken = snd (clock E i Logistic)\<rparr>
            \<and> set (nonzero (data_coef data)) = set (rng_support E i)
            \<and> card (set (rng_support E i)) = s)"
  proof (intro allI impI conjI)
    fix i assume i: "i < rep"
    show "\<exists>coef data.
              data = make_glm_data E i Linear n p s (family_of Linear) coef
            \<and> res ! (6 * i) = \<lparr>row_task = Linear, row_model = ''abess'',
                     accuracy = real (card (set (nonzero (abess_fit E i Linear s (data_x data) (data_y data)))
                                          \<inter> set (rng_support E i))) / real s,
                     time_taken = fst (clock E i Linear)\<rparr>
            \<and> res ! (6 * i + 1) = \<lparr>row_task = Linear, row_model = ''skscope'',
                     accuracy = real (card (set (nonzero (scope_solve E i Linear p s
                                                    (objective Linear (data_x data) (data_y data))))
                                          \<inter> set (nonzero (data_coef data)))) / real s,
                     time_taken = snd (clock E i Linear)\<rparr>
            \<and> set (nonzero (data_coef data)) = set (rng_support E i)
            \<and> card (set (rng_support E i)) = s"
      using rec i by (intro recorded_rows) blast
    show "\<exists>coef data.
              data = make_glm_data E i NonNeg n p s (family_of NonNeg) coef
            \<and> res ! (6 * i + 2) = \<lparr>row_task = NonNeg, row_model = ''abess'',
                     accuracy = real (card (set (nonzero (abess_fit E i NonNeg s (data_x data) (data_y data)))
                                          \<inter> set (rng_support E i))) / real s,
                     time_taken = fst (clock E i NonNeg)\<rparr>
            \<and> res ! (6 * i + 3) = \<lparr>row_task = NonNeg, row_model = ''skscope'',
                     accuracy = real (card (set (nonzero (scope_solve E i NonNeg p s
                                                    (objective NonNeg (data_x data) (data_y data))))
                                          \<inter> set (nonzero (data_coef data)))) / real s,
                     time_taken = snd (clock E i NonNeg)\<rparr>
            \<and> set (nonzero (data_coef data)) = set (rng_support E i)
            \<and> card (set (rng_support E i)) = s"
      using rec i by (intro recorded_rows) blast
    show "\<exists>coef data.
              data = make_glm_data E i Logistic n p s (family_of Logistic) coef
            \<and> res ! (6 * i + 4) = \<lparr>row_task = Logistic, row_model = ''abess'',
                     accuracy = real (card (set (nonzero (abess_fit E i Logistic s (data_x data) (data_y data)))
                                          \<inter> set (rng_support E i))) / real s,
                     time_taken = fst (clock E i Logistic)\<rparr>
            \<and> res ! (6 * i + 5) = \<lparr>row_task = Logistic, row_model = ''skscope'',
                     accuracy = real (card (set (nonzero (scope_solve E i Logistic p s
                                                    (objective Logistic (data_x data) (data_y data))))
                                          \<inter> set (nonzero (data_coef data)))) / real s,
                     time_taken = snd (clock E i Logistic)\<rparr>
            \<and> set (nonzero (data_coef data)) = set (rng_support E i)
            \<and> card (set (rng_support E i)) = s"
      using rec i by (intro recorded_rows) blast
  qed
  then show ?thesis using t by (intro exI [of _ res] exI [of _ sites] conjI)
qed

theorem C6_same_data_and_support_witness:
  "\<exists>res sites.
           test_time example_env 1 2 1 1 = Inr (res, sites)
         \<and> (\<forall>i<1.
               (\<exists>coef data.
              data = make_glm_data example_env i Linear 1 2 1 (family_of Linear) coef
            \<and> res ! (6 * i) = \<lparr>row_task = Linear, row_model = ''abess'',
                     accuracy = real (card (set (nonzero (abess_fit example_env i Linear 1 (data_x data) (data_y data)))
                                          \<inter> set (rng_support example_env i))) / real 1,
                     time_taken = fst (clock example_env i Linear)\<rparr>
            \<and> res ! (6 * i + 1) = \<lparr>row_task = Linear, row_model = ''skscope'',
                     accuracy = real (card (set (nonzero (scope_solve example_env i Linear 2 1
                                                    (objective Linear (data_x data) (data_y data))))
                                          \<inter> set (nonzero (data_coef data)))) / real 1,
                     time_taken = snd (clock example_env i Linear)\<rparr>
            \<and> set (nonzero (data_coef data)) = set (rng_support example_env i)
            \<and> card (set (rng_support example_env i)) = 1)
             \<and> (\<exists>coef data.
              data = make_glm_data example_env i NonNeg 1 2 1 (family_of NonNeg) coef
            \<and> res ! (6 * i + 2) = \<lparr>row_task = NonNeg, row_model = ''abess'',
                     accuracy = real (card (set (nonzero (abess_fit example_env i NonNeg 1 (data_x data) (data_y data)))
                                          \<inter> set (rng_support example_env i))) / real 1,
                     time_taken = fst (clock example_env i NonNeg)\<rparr>
            \<and> res ! (6 * i + 3) = \<lparr>row_task = NonNeg, row_model = ''skscope'',
                     accuracy = real (card (set (nonzero (scope_solve example_env i NonNeg 2 1
                                                    (objective NonNeg (data_x data) (data_y data))))
                                          \<inter> set (nonzero (data_coef data)))) / real 1,
                     time_taken = snd (clock example_env i NonNeg)\<rparr>
            \<and> set (nonzero (data_coef data)) = set (rng_support example_env i)
            \<and> card (set (rng_support example_env i)) = 1)
             \<and> (\<exists>coef data.
              data = make_glm_data example_env i Logistic 1 2 1 (family_of Logistic) coef
            \<and> res ! (6 * i + 4) = \<lparr>row_task = Logistic, row_model = ''abess'',
                     accuracy = real (card (set (nonzero (abess_fit example_env i Logistic 1 (data_x data) (data_y data)))
                                          \<inter> set (rng_support example_env i))) / real 1,
                     time_taken = fst (clock example_env i Logistic)\<rparr>
            \<and> res ! (6 * i + 5) = \<lparr>row_task = Logistic, row_model = ''skscope'',
                     accuracy = real (card (set (nonzero (scope_solve example_env i Logistic 2 1
                                                    (objective Logistic (data_x data) (data_y data))))
                                          \<inter> set (nonzero (data_coef data)))) / real 1,
                     time_taken = snd (clock example_env i Logistic)\<rparr>
            \<and> set (nonzero (data_coef data)) = set (rng_support example_env i)
            \<and> card (set (rng_support example_env i)) = 1))"
  by (rule C6_same_data_and_support) (simp_all add: example_env_def)

text \<open>
  C10, amended. Every call of \<open>test_time\<close> with \<open>1 \<le> s \<le> p\<close> returns with two rows for each
  task of each repetition, the first labelled \<open>abess\<close> and the second \<open>skscope\<close>, so \<open>6 * rep\<close>
  rows, and every accuracy it records lies in \<open>[0, 1]\<close>.
\<close>

theorem C10_rows_and_accuracy_range:
  assumes "0 < s" and "s \<le> p"
    and "\<forall>i<rep. length (rng_support E i) = s \<and> distinct (rng_support E i)
                \<and> (\<forall>j \<in> set (rng_support E i). j < p)"
    and "\<forall>i<rep. \<forall>task. length (rng_magnitude E i task) = s
                \<and> (\<forall>m \<in> set (rng_magnitude E i task). 1 \<le> m \<and> m \<le> 3)"
    and "\<forall>i<rep. \<forall>task. length (rng_sign E i task) = s
                \<and> (\<forall>g \<in> set (rng_sign E i task). g = 1 \<or> g = - 1)"
    and "\<forall>i<rep. \<forall>task c. data_coef (make_glm_data E i task n p s (family_of task) c) = c"
  shows "\<exists>res sites.
           test_time E n p s rep = Inr (res, sites)
         \<and> length res = 6 * rep
         \<and> (\<forall>i<rep.
               row_task (res ! (6 * i)) = Linear \<and> row_model (res ! (6 * i)) = ''abess''
             \<and> row_task (res ! (6 * i + 1)) = Linear \<and> row_model (res ! (6 * i + 1)) = ''skscope''
             \<and> row_task (res ! (6 * i + 2)) = NonNeg \<and> row_model (res ! (6 * i + 2)) = ''abess''
             \<and> row_task (res ! (6 * i + 3)) = NonNeg \<and> row_model (res ! (6 * i + 3)) = ''skscope''
             \<and> row_task (res ! (6 * i + 4)) = Logistic \<and> row_model (res ! (6 * i + 4)) = ''abess''
             \<and> row_task (res ! (6 * i + 5)) = Logistic \<and> row_model (res ! (6 * i + 5)) = ''skscope'')
         \<and> (\<forall>r \<in> set res. 0 \<le> accuracy r \<and> accuracy r \<le> 1)"
proof -
  obtain res sites where t: "test_time E n p s rep = Inr (res, sites)"
    and len: "length res = 6 * rep"
    and rec: "\<forall>i<rep. recorded E n p s i Linear (rng_support E i) (res ! (6 * i)) (res ! (6 * i + 1))
                 \<and> recorded E n p s i NonNeg (rng_support E i)
                      (res ! (6 * i + 2)) (res ! (6 * i + 3))
                 \<and> recorded E n p s i Logistic (rng_support E i)
                      (res ! (6 * i + 4)) (res ! (6 * i + 5))"
    using test_time_valid [OF assms] by blast
  have l0: "row_task (res ! (6 * i)) = Linear \<and> row_model (res ! (6 * i)) = ''abess''
          \<and> row_task (res ! (6 * i + 1)) = Linear \<and> row_model (res ! (6 * i + 1)) = ''skscope''
          \<and> 0 \<le> accuracy (res ! (6 * i)) \<and> accuracy (res ! (6 * i)) \<le> 1
          \<and> 0 \<le> accuracy (res ! (6 * i + 1)) \<and> accuracy (res ! (6 * i + 1)) \<le> 1"
    if "i < rep" for i
    using rec that by (intro recorded_labels) blast
  have l1: "row_task (res ! (6 * i + 2)) = NonNeg \<and> row_model (res ! (6 * i + 2)) = ''abess''
          \<and> row_task (res ! (6 * i + 3)) = NonNeg \<and> row_model (res ! (6 * i + 3)) = ''skscope''
          \<and> 0 \<le> accuracy (res ! (6 * i + 2)) \<and> accuracy (res ! (6 * i + 2)) \<le> 1
          \<and> 0 \<le> accuracy (res ! (6 * i + 3)) \<and> accuracy (res ! (6 * i + 3)) \<le> 1"
    if "i < rep" for i
    using rec that by (intro recorded_labels) blast
  have l2: "row_task (res ! (6 * i + 4)) = Logistic \<and> row_model (res ! (6 * i + 4)) = ''abess''
          \<and> row_task (res ! (6 * i + 5)) = Logistic \<and> row_model (res ! (6 * i + 5)) = ''skscope''
          \<and> 0 \<le> accuracy (res ! (6 * i + 4)) \<and> accuracy (res ! (6 * i + 4)) \<le> 1
          \<and> 0 \<le> accuracy (res ! (6 * i + 5)) \<and> accuracy (res ! (6 * i + 5)) \<le> 1"
    if "i < rep" for i
    using rec that by (intro recorded_labels) blast
  have lab: "\<forall>i<rep.
               row_task (res ! (6 * i)) = Linear \<and> row_model (res ! (6 * i)) = ''abess''
             \<and> row_task (res ! (6 * i + 1)) = Linear \<and> row_model (res ! (6 * i + 1)) = ''skscope''
             \<and> row_task (res ! (6 * i + 2)) = NonNeg \<and> row_model (res ! (6 * i + 2)) = ''abess''
             \<and> row_task (res ! (6 * i + 3)) = NonNeg \<and> row_model (res ! (6 * i + 3)) = ''skscope''
             \<and> row_task (res ! (6 * i + 4)) = Logistic \<and> row_model (res ! (6 * i + 4)) = ''abess''
             \<and> row_task (res ! (6 * i + 5)) = Logistic \<and> row_model (res ! (6 * i + 5)) = ''skscope''"
  proof (intro allI impI)
    fix i assume i: "i < rep"
    show "row_task (res ! (6 * i)) = Linear \<and> row_model (res ! (6 * i)) = ''abess''
             \<and> row_task (res ! (6 * i + 1)) = Linear \<and> row_model (res ! (6 * i + 1)) = ''skscope''
             \<and> row_task (res ! (6 * i + 2)) = NonNeg \<and> row_model (res ! (6 * i + 2)) = ''abess''
             \<and> row_task (res ! (6 * i + 3)) = NonNeg \<and> row_model (res ! (6 * i + 3)) = ''skscope''
             \<and> row_task (res ! (6 * i + 4)) = Logistic \<and> row_model (res ! (6 * i + 4)) = ''abess''
             \<and> row_task (res ! (6 * i + 5)) = Logistic \<and> row_model (res ! (6 * i + 5)) = ''skscope''"
      using l0 [OF i] l1 [OF i] l2 [OF i] by simp
  qed
  have rng: "\<forall>r \<in> set res. 0 \<le> accuracy r \<and> accuracy r \<le> 1"
  proof
    fix r assume "r \<in> set res"
    then obtain j where j: "j < 6 * rep" and r: "r = res ! j"
      unfolding in_set_conv_nth len by blast
    from j obtain i m where i: "i < rep" and m: "m < 6" and jm: "j = 6 * i + m"
      by (rule index_by_six)
    from m have "m = 0 \<or> m = 1 \<or> m = 2 \<or> m = 3 \<or> m = 4 \<or> m = 5" by arith
    then show "0 \<le> accuracy r \<and> accuracy r \<le> 1"
      unfolding r jm using l0 [OF i] l1 [OF i] l2 [OF i]
      by (elim disjE) simp_all
  qed
  show ?thesis
    by (rule exI [of _ res], rule exI [of _ sites], intro conjI) (rule t, rule len, rule lab, rule rng)
qed

theorem C10_rows_and_accuracy_range_witness:
  "\<exists>res sites.
           test_time example_env 1 2 1 1 = Inr (res, sites)
         \<and> length res = 6 * 1
         \<and> (\<forall>i<1.
               row_task (res ! (6 * i)) = Linear \<and> row_model (res ! (6 * i)) = ''abess''
             \<and> row_task (res ! (6 * i + 1)) = Linear \<and> row_model (res ! (6 * i + 1)) = ''skscope''
             \<and> row_task (res ! (6 * i + 2)) = NonNeg \<and> row_model (res ! (6 * i + 2)) = ''abess''
             \<and> row_task (res ! (6 * i + 3)) = NonNeg \<and> row_model (res ! (6 * i + 3)) = ''skscope''
             \<and> row_task (res ! (6 * i + 4)) = Logistic \<and> row_model (res ! (6 * i + 4)) = ''abess''
             \<and> row_task (res ! (6 * i + 5)) = Logistic \<and> row_model (res ! (6 * i + 5)) = ''skscope'')
         \<and> (\<forall>r \<in> set res. 0 \<le> accuracy r \<and> accuracy r \<le> 1)"
  by (rule C10_rows_and_accuracy_range) (simp_all add: example_env_def)

text \<open>
  C10 as stated is of every call. With \<open>s = 0\<close> the first accuracy divides by zero, and
  the call \<open>test_time(n=5, p=10, s=0, rep=1)\<close> raises instead of appending six rows.
\<close>

theorem C10_zero_support_size_counterexample:
  "test_time example_env_no_support 5 10 0 1 = Inl ZeroDivisionError"
  by (simp add: example_env_no_support_def test_time_def run_rep_def int_mul_def assign_at_def
        support_accuracy_def)





end
